theory Spec2Isabelle
  imports Complex_Main
begin

section \<open>Python exceptions\<close>

text \<open>
  Every \<^verbatim>\<open>raise\<close>, failed \<^verbatim>\<open>assert\<close> and library exception that the modelled
  functions can produce is a value of this type; a fallible function returns
  \<open>py_error + 'a\<close>, with \<open>Inl\<close> for the exception.
\<close>

datatype py_error =
    ValueError
  | IndexError
  | RuntimeError
  | TypeError
  | AssertionError
  | FileNotFoundError
  | CalledProcessError

section \<open>cupbearer/tasks/toy\_features.py\<close>

text \<open>
  \<^verbatim>\<open>ToyFeaturesConfig\<close> is a dataclass of \<^verbatim>\<open>cupbearer.data.toy_ambiguous_features\<close>;
  the task builds it from the two keyword arguments \<^verbatim>\<open>correlated\<close> and \<^verbatim>\<open>noise\<close>, which
  are the fields of the record. \<^verbatim>\<open>StoredModel\<close> is built from \<^verbatim>\<open>path\<close>. The float
  \<^verbatim>\<open>noise\<close> is only passed on, never computed with.
\<close>

record ToyFeaturesConfig =
  correlated :: bool
  noise :: real

record StoredModel =
  path :: string

text \<open>
  The dataclass \<^verbatim>\<open>ToyFeaturesTask(TaskConfig)\<close>: its two declared fields and the two
  attributes \<^verbatim>\<open>_train_data\<close> and \<^verbatim>\<open>_model\<close> that its methods assign (unset before).
\<close>

record ToyFeaturesTask =
  run_path :: string
  task_noise :: real
  train_data :: "ToyFeaturesConfig option"
  model :: "StoredModel option"

definition init_train_data :: "ToyFeaturesTask \<Rightarrow> ToyFeaturesTask" where
  "init_train_data self =
     self\<lparr>train_data := Some \<lparr>correlated = True, noise = task_noise self\<rparr>\<rparr>"

definition get_anomalous_test_data :: "ToyFeaturesTask \<Rightarrow> ToyFeaturesConfig" where
  "get_anomalous_test_data self = \<lparr>correlated = False, noise = task_noise self\<rparr>"

definition init_model :: "ToyFeaturesTask \<Rightarrow> ToyFeaturesTask" where
  "init_model self = self\<lparr>model := Some \<lparr>path = run_path self\<rparr>\<rparr>"

section \<open>abstractions/adversarial\_examples.py: the stored dataset\<close>

text \<open>
  \<^verbatim>\<open>utils.load\<close> and the attack subprocess are outside the class: the constructor is
  given the outcome of the first load, the outcome of \<^verbatim>\<open>subprocess.run(..., check=True)\<close>
  (\<open>None\<close> when the subprocess succeeds) and the outcome of the second load. Only a
  \<^verbatim>\<open>FileNotFoundError\<close> of the first load is caught.
\<close>

definition load_examples ::
  "py_error + 'a list \<Rightarrow> py_error option \<Rightarrow> py_error + 'a list \<Rightarrow> py_error + 'a list" where
  "load_examples first_load subprocess_run second_load =
     (case first_load of
        Inr examples \<Rightarrow> Inr examples
      | Inl e \<Rightarrow>
          (if e = FileNotFoundError then
             (case subprocess_run of Some e' \<Rightarrow> Inl e' | None \<Rightarrow> second_load)
           else Inl e))"

record 'a AdversarialExampleDataset =
  base_run :: string
  examples :: "'a list"
  num_examples :: int

text \<open>
  Lines 46 to 53 of the constructor: \<^verbatim>\<open>num_examples\<close> is \<^verbatim>\<open>None\<close> or a Python int.
\<close>

definition dataset_of ::
  "string \<Rightarrow> 'a list \<Rightarrow> int option \<Rightarrow> py_error + 'a AdversarialExampleDataset" where
  "dataset_of run exs requested =
     (let n = (case requested of None \<Rightarrow> int (length exs) | Some k \<Rightarrow> k)
      in if int (length exs) < n then Inl ValueError
         else Inr \<lparr>base_run = run, examples = exs, num_examples = n\<rparr>)"

definition AdversarialExampleDataset_init ::
  "py_error + 'a list \<Rightarrow> py_error option \<Rightarrow> py_error + 'a list \<Rightarrow> string \<Rightarrow> int option
   \<Rightarrow> py_error + 'a AdversarialExampleDataset" where
  "AdversarialExampleDataset_init first_load subprocess_run second_load run requested =
     (case load_examples first_load subprocess_run second_load of
        Inl e \<Rightarrow> Inl e
      | Inr exs \<Rightarrow> dataset_of run exs requested)"

text \<open>
  \<^verbatim>\<open>__len__\<close> returns the field. The builtin \<^verbatim>\<open>len(dataset)\<close> calls it and raises
  \<^verbatim>\<open>ValueError\<close> when it returns a negative number.
\<close>

definition dataset_dunder_len :: "'a AdversarialExampleDataset \<Rightarrow> int" where
  "dataset_dunder_len self = num_examples self"

definition dataset_len :: "'a AdversarialExampleDataset \<Rightarrow> py_error + int" where
  "dataset_len self =
     (if dataset_dunder_len self < 0 then Inl ValueError else Inr (dataset_dunder_len self))"

text \<open>
  \<^verbatim>\<open>self.examples[idx]\<close> on the stored sequence: a negative index counts from the end, an
  index outside the sequence raises.
\<close>

definition py_index :: "'a list \<Rightarrow> int \<Rightarrow> py_error + 'a" where
  "py_index xs idx =
     (if idx < - int (length xs) \<or> int (length xs) \<le> idx then Inl IndexError
      else if idx < 0 then Inr (xs ! nat (idx + int (length xs)))
      else Inr (xs ! nat idx))"

definition dataset_getitem :: "'a AdversarialExampleDataset \<Rightarrow> int \<Rightarrow> py_error + 'a" where
  "dataset_getitem self idx =
     (if idx \<ge> num_examples self then Inl IndexError else py_index (examples self) idx)"

section \<open>Arrays and the library functions applied to them\<close>

text \<open>
  A batch is a list of examples and an example is the list of its entries (pixels of an
  image, logits of a prediction); float32 entries are modelled as exact reals, so rounding,
  infinities and NaN are outside the model. The functions below are the operations of
  \<^verbatim>\<open>jax.numpy\<close>, \<^verbatim>\<open>jax.nn\<close> and \<^verbatim>\<open>optax\<close> that the sources call, on batches of
  matching shapes.
\<close>

type_synonym example = "real list"
type_synonym batch_array = "real list list"

definition jnp_mean :: "real list \<Rightarrow> real" where
  "jnp_mean xs = sum_list xs / real (length xs)"

definition jnp_sign :: "batch_array \<Rightarrow> batch_array" where
  "jnp_sign g = map (map sgn) g"

definition jnp_clip :: "batch_array \<Rightarrow> real \<Rightarrow> real \<Rightarrow> batch_array" where
  "jnp_clip x lo hi = map (map (\<lambda>v. min (max v lo) hi)) x"

definition scale :: "real \<Rightarrow> batch_array \<Rightarrow> batch_array" where
  "scale c x = map (map (\<lambda>v. c * v)) x"

definition add :: "batch_array \<Rightarrow> batch_array \<Rightarrow> batch_array" where
  "add x y = map2 (map2 (+)) x y"

text \<open>\<^verbatim>\<open>jax.nn.one_hot(labels, n)\<close>: a label outside \<open>0..<n\<close> gives a row of zeros.\<close>

definition one_hot :: "int list \<Rightarrow> nat \<Rightarrow> batch_array" where
  "one_hot labels n = map (\<lambda>l. map (\<lambda>j. if int j = l then 1 else 0) [0..<n]) labels"

definition log_softmax :: "example \<Rightarrow> example" where
  "log_softmax z = map (\<lambda>v. v - ln (sum_list (map exp z))) z"

text \<open>
  \<^verbatim>\<open>optax.softmax_cross_entropy\<close> on logits and labels of one shape: one loss per example.
  In \<^verbatim>\<open>fgsm\<close> and \<^verbatim>\<open>attack\<close> the one-hot labels take their width from the logits. Where
  the width is given from outside, in \<^verbatim>\<open>train_base.py\<close>, the broadcasting of the library
  and its shape error are modelled by \<open>optax_softmax_cross_entropy\<close>.
\<close>

definition softmax_cross_entropy :: "batch_array \<Rightarrow> batch_array \<Rightarrow> real list" where
  "softmax_cross_entropy logits labels =
     map2 (\<lambda>z y. - sum_list (map2 (*) y (log_softmax z))) logits labels"

text \<open>\<^verbatim>\<open>jnp.argmax(row)\<close>: the position of the first largest entry.\<close>

fun argmax_from :: "nat \<Rightarrow> real \<Rightarrow> nat \<Rightarrow> real list \<Rightarrow> nat" where
  "argmax_from best bv i [] = best"
| "argmax_from best bv i (v # vs) =
     (if bv < v then argmax_from i v (Suc i) vs else argmax_from best bv (Suc i) vs)"

fun argmax :: "real list \<Rightarrow> nat" where
  "argmax [] = 0"
| "argmax (v # vs) = argmax_from 0 v 1 vs"

text \<open>\<^verbatim>\<open>jnp.mean(jnp.argmax(logits, -1) == labels)\<close>.\<close>

definition accuracy_of :: "batch_array \<Rightarrow> int list \<Rightarrow> real" where
  "accuracy_of logits labels =
     jnp_mean (map2 (\<lambda>z l. if int (argmax z) = l then 1 else 0) logits labels)"

text \<open>\<^verbatim>\<open>logits.shape[-1]\<close>.\<close>

definition last_dim :: "batch_array \<Rightarrow> nat" where
  "last_dim logits = (case logits of [] \<Rightarrow> 0 | z # _ \<Rightarrow> length z)"

section \<open>abstractions/adversarial\_examples.py: fgsm\<close>

text \<open>
  The inner function \<^verbatim>\<open>loss\<close> of \<^verbatim>\<open>fgsm\<close>, closed over \<^verbatim>\<open>forward_fn\<close> and
  \<^verbatim>\<open>labels\<close>.
\<close>

definition fgsm_loss :: "(batch_array \<Rightarrow> batch_array) \<Rightarrow> int list \<Rightarrow> batch_array \<Rightarrow> real" where
  "fgsm_loss forward_fn labels x =
     (let logits = forward_fn x;
          onehot = one_hot labels (last_dim logits);
          losses = softmax_cross_entropy logits onehot
      in jnp_mean losses)"

text \<open>
  \<^verbatim>\<open>jax.value_and_grad\<close> is the automatic differentiation of the library; \<^verbatim>\<open>fgsm\<close> takes
  it as its first argument \<open>value_and_grad\<close>, applied once to the loss and the inputs.
\<close>

definition fgsm ::
  "((batch_array \<Rightarrow> real) \<Rightarrow> batch_array \<Rightarrow> real \<times> batch_array)
   \<Rightarrow> (batch_array \<Rightarrow> batch_array) \<Rightarrow> batch_array \<Rightarrow> int list \<Rightarrow> real
   \<Rightarrow> batch_array \<times> real" where
  "fgsm value_and_grad forward_fn inputs labels eps =
     (case value_and_grad (fgsm_loss forward_fn labels) inputs of
        (loss, grad) \<Rightarrow> (add inputs (scale eps (jnp_sign grad)), loss))"

section \<open>abstractions/adversarial\_examples.py: attack\<close>

text \<open>
  The Hydra configuration of the attack: \<^verbatim>\<open>cfg.base_run\<close>, \<^verbatim>\<open>cfg.batch_size\<close>,
  \<^verbatim>\<open>cfg.eps\<close> and \<^verbatim>\<open>cfg.max_examples\<close> (\<^verbatim>\<open>None\<close> or an int).
\<close>

record attack_cfg =
  cfg_base_run :: string
  cfg_batch_size :: nat
  cfg_eps :: real
  cfg_max_examples :: "int option"

text \<open>
  What \<^verbatim>\<open>attack\<close> has loaded before its loop (lines 96 to 107) and the libraries it calls:
  the batches \<^verbatim>\<open>(inputs, labels, infos)\<close> that the data loader yields, in order; the model
  with its parameters, \<^verbatim>\<open>lambda x: model.apply({"params": params}, x)\<close>; the automatic
  differentiation; \<^verbatim>\<open>utils.SUFFIX\<close>; and the plotting of the examples, which may fail.
\<close>

record 'i attack_env =
  dataloader :: "(batch_array \<times> int list \<times> 'i) list"
  model_apply :: "batch_array \<Rightarrow> batch_array"
  autodiff :: "(batch_array \<Rightarrow> real) \<Rightarrow> batch_array \<Rightarrow> real \<times> batch_array"
  SUFFIX :: string
  plot_examples :: "batch_array \<Rightarrow> py_error option"

text \<open>
  The local variables of the loop; \<open>seen_examples\<close> is the counter \<^verbatim>\<open>num_examples\<close>.
  \<open>batches_done\<close> is not a variable of the source: it counts the executed loop bodies
  (\<open>i + 1\<close> for the last \<open>i\<close> of the source).
\<close>

record attack_state =
  adv_examples :: "batch_array list"
  seen_examples :: nat
  mean_original_loss :: real
  mean_new_loss :: real
  mean_new_accuracy :: real
  batches_done :: nat

definition initial_state :: attack_state where
  "initial_state =
     \<lparr>adv_examples = [], seen_examples = 0, mean_original_loss = 0, mean_new_loss = 0,
      mean_new_accuracy = 0, batches_done = 0\<rparr>"

text \<open>
  Lines 117 to 132: what one loop body computes from its batch, namely the clipped
  adversarial inputs, \<^verbatim>\<open>original_loss\<close>, \<^verbatim>\<open>new_loss\<close> and \<^verbatim>\<open>new_accuracy\<close>.
\<close>

definition batch_adv_inputs ::
  "'i attack_env \<Rightarrow> attack_cfg \<Rightarrow> batch_array \<times> int list \<times> 'i \<Rightarrow> batch_array" where
  "batch_adv_inputs env cfg batch =
     (case batch of (inputs, labels, infos) \<Rightarrow>
        jnp_clip (fst (fgsm (autodiff env) (model_apply env) inputs labels (cfg_eps cfg)))
          0 1)"

definition batch_original_loss ::
  "'i attack_env \<Rightarrow> attack_cfg \<Rightarrow> batch_array \<times> int list \<times> 'i \<Rightarrow> real" where
  "batch_original_loss env cfg batch =
     (case batch of (inputs, labels, infos) \<Rightarrow>
        snd (fgsm (autodiff env) (model_apply env) inputs labels (cfg_eps cfg)))"

definition batch_new_accuracy ::
  "'i attack_env \<Rightarrow> attack_cfg \<Rightarrow> batch_array \<times> int list \<times> 'i \<Rightarrow> real" where
  "batch_new_accuracy env cfg batch =
     (case batch of (inputs, labels, infos) \<Rightarrow>
        accuracy_of (model_apply env (batch_adv_inputs env cfg batch)) labels)"

definition batch_new_loss ::
  "'i attack_env \<Rightarrow> attack_cfg \<Rightarrow> batch_array \<times> int list \<times> 'i \<Rightarrow> real" where
  "batch_new_loss env cfg batch =
     (case batch of (inputs, labels, infos) \<Rightarrow>
        (let new_logits = model_apply env (batch_adv_inputs env cfg batch);
             onehot = one_hot labels (last_dim new_logits)
         in jnp_mean (softmax_cross_entropy new_logits onehot)))"

text \<open>Lines 126 to 136: the updates of the loop body, at loop index \<open>i\<close>.\<close>

definition attack_body ::
  "'i attack_env \<Rightarrow> attack_cfg \<Rightarrow> nat \<Rightarrow> attack_state \<Rightarrow> batch_array \<times> int list \<times> 'i
   \<Rightarrow> attack_state" where
  "attack_body env cfg i st batch =
     \<lparr>adv_examples = adv_examples st @ [batch_adv_inputs env cfg batch],
      seen_examples = seen_examples st + length (batch_adv_inputs env cfg batch),
      mean_original_loss =
        (real i * mean_original_loss st + batch_original_loss env cfg batch) / (real i + 1),
      mean_new_loss = (real i * mean_new_loss st + batch_new_loss env cfg batch) / (real i + 1),
      mean_new_accuracy =
        (real i * mean_new_accuracy st + batch_new_accuracy env cfg batch) / (real i + 1),
      batches_done = Suc (batches_done st)\<rparr>"

text \<open>
  Line 138, \<^verbatim>\<open>cfg.max_examples and num_examples >= cfg.max_examples\<close>: \<^verbatim>\<open>None\<close> and
  \<open>0\<close> are false.
\<close>

definition limit_reached :: "attack_cfg \<Rightarrow> attack_state \<Rightarrow> bool" where
  "limit_reached cfg st =
     (case cfg_max_examples cfg of
        None \<Rightarrow> False
      | Some m \<Rightarrow> m \<noteq> 0 \<and> int (seen_examples st) \<ge> m)"

fun attack_loop ::
  "'i attack_env \<Rightarrow> attack_cfg \<Rightarrow> nat \<Rightarrow> attack_state \<Rightarrow> (batch_array \<times> int list \<times> 'i) list
   \<Rightarrow> attack_state" where
  "attack_loop env cfg i st [] = st"
| "attack_loop env cfg i st (batch # rest) =
     (let st' = attack_body env cfg i st batch
      in if limit_reached cfg st' then st' else attack_loop env cfg (Suc i) st' rest)"

text \<open>
  The files of the run directory. \<^verbatim>\<open>utils.save\<close> and \<^verbatim>\<open>utils.load\<close> are not among the
  sources; \<^verbatim>\<open>utils.save(x, base_run / "adv_examples")\<close> is taken to write the file
  \<^verbatim>\<open>adv_examples.SUFFIX\<close> whose existence line 92 tests.
\<close>

record adv_stats =
  stats_original_loss :: real
  stats_new_loss :: real
  stats_new_accuracy :: real
  stats_eps :: real
  stats_num_examples :: nat

datatype file_content =
    ArrayFile batch_array
  | JsonFile adv_stats
  | PdfFile batch_array

type_synonym file_system = "string \<Rightarrow> file_content option"

definition in_dir :: "string \<Rightarrow> string \<Rightarrow> string" where
  "in_dir dir name = dir @ ''/'' @ name"

definition examples_file :: "'i attack_env \<Rightarrow> attack_cfg \<Rightarrow> string" where
  "examples_file env cfg = in_dir (cfg_base_run cfg) (''adv_examples.'' @ SUFFIX env)"

text \<open>
  \<^verbatim>\<open>attack\<close> from line 92 on: the outcome (an exception or \<^verbatim>\<open>None\<close>) and the files
  afterwards. \<^verbatim>\<open>jnp.concatenate\<close> of an empty list raises \<^verbatim>\<open>ValueError\<close>.
\<close>

definition attack ::
  "'i attack_env \<Rightarrow> attack_cfg \<Rightarrow> file_system \<Rightarrow> (py_error + unit) \<times> file_system" where
  "attack env cfg fs =
     (if fs (examples_file env cfg) \<noteq> None then (Inr (), fs)
      else
        (let st = attack_loop env cfg 0 initial_state (dataloader env)
         in if mean_new_accuracy st > 1 / 10 then (Inl RuntimeError, fs)
            else if adv_examples st = [] then (Inl ValueError, fs)
            else
              (let adv = concat (adv_examples st);
                   fs1 = fs(examples_file env cfg \<mapsto> ArrayFile adv);
                   fs2 = fs1(in_dir (cfg_base_run cfg) ''adv_examples.json'' \<mapsto>
                           JsonFile \<lparr>stats_original_loss = mean_original_loss st,
                                     stats_new_loss = mean_new_loss st,
                                     stats_new_accuracy = mean_new_accuracy st,
                                     stats_eps = cfg_eps cfg,
                                     stats_num_examples = seen_examples st\<rparr>)
               in case plot_examples env adv of
                    Some e \<Rightarrow> (Inl e, fs2)
                  | None \<Rightarrow>
                      (Inr (), fs2(in_dir (cfg_base_run cfg) ''adv_examples.pdf'' \<mapsto>
                                    PdfFile (take 9 adv))))))"

text \<open>All entries of a batch lie in the closed interval \<open>[0, 1]\<close>.\<close>

definition unit_range :: "batch_array \<Rightarrow> bool" where
  "unit_range x = list_all (list_all (\<lambda>v. 0 \<le> v \<and> v \<le> 1)) x"

section \<open>An example run\<close>

text \<open>
  A model that ignores its input and returns the logits \<open>[0, 0]\<close> for every example. Its
  loss does not depend on the inputs, so the value and the zero gradient are what automatic
  differentiation returns for it.
\<close>

definition constant_model :: "batch_array \<Rightarrow> batch_array" where
  "constant_model x = map (\<lambda>_. [0, 0]) x"

definition zero_gradient :: "(batch_array \<Rightarrow> real) \<Rightarrow> batch_array \<Rightarrow> real \<times> batch_array" where
  "zero_gradient f x = (f x, map (map (\<lambda>_. 0)) x)"

definition example_env :: "(batch_array \<times> int list \<times> unit) list \<Rightarrow> unit attack_env" where
  "example_env batches =
     \<lparr>dataloader = batches, model_apply = constant_model, autodiff = zero_gradient,
      SUFFIX = ''pytree'', plot_examples = (\<lambda>_. None)\<rparr>"

definition example_cfg :: attack_cfg where
  "example_cfg = \<lparr>cfg_base_run = ''run'', cfg_batch_size = 3, cfg_eps = 1 / 10,
     cfg_max_examples = None\<rparr>"

section \<open>abstractions/custom\_transforms.py\<close>

text \<open>
  Python values as they occur in configurations, keyword arguments, targets and info
  dicts, with Python's truth value and the numeric value of an int, bool or float.
\<close>

datatype py_value = PyNone | PyBool bool | PyInt int | PyFloat real | PyStr string

fun truthy :: "py_value \<Rightarrow> bool" where
  "truthy PyNone = False"
| "truthy (PyBool b) = b"
| "truthy (PyInt k) = (k \<noteq> 0)"
| "truthy (PyFloat x) = (x \<noteq> 0)"
| "truthy (PyStr s) = (s \<noteq> [])"

fun num_of :: "py_value \<Rightarrow> real option" where
  "num_of (PyBool b) = Some (if b then 1 else 0)"
| "num_of (PyInt k) = Some (of_int k)"
| "num_of (PyFloat x) = Some x"
| "num_of v = None"

text \<open>
  A PIL image with one 8-bit band (mode \<^verbatim>\<open>L\<close>, as the MNIST images are): its size and its
  pixels row by row. \<^verbatim>\<open>putpixel\<close> and \<^verbatim>\<open>getpixel\<close> count a negative coordinate from the far
  edge and raise \<^verbatim>\<open>IndexError\<close> outside the image.
\<close>

record image =
  img_width :: nat
  img_height :: nat
  img_data :: "nat list"

definition locate :: "image \<Rightarrow> int \<times> int \<Rightarrow> py_error + nat" where
  "locate img xy =
     (case xy of (x, y) \<Rightarrow>
        (let w = int (img_width img); h = int (img_height img);
             col = (if x < 0 then w + x else x);
             row = (if y < 0 then h + y else y)
         in if col < 0 \<or> w \<le> col \<or> row < 0 \<or> h \<le> row then Inl IndexError
            else Inr (nat row * img_width img + nat col)))"

definition putpixel :: "image \<Rightarrow> int \<times> int \<Rightarrow> nat \<Rightarrow> py_error + image" where
  "putpixel img xy v =
     (case locate img xy of
        Inl e \<Rightarrow> Inl e
      | Inr k \<Rightarrow> Inr (img\<lparr>img_data := (img_data img)[k := v]\<rparr>))"

definition getpixel :: "image \<Rightarrow> int \<times> int \<Rightarrow> py_error + nat" where
  "getpixel img xy =
     (case locate img xy of
        Inl e \<Rightarrow> Inl e
      | Inr k \<Rightarrow> if k < length (img_data img) then Inr (img_data img ! k) else Inl IndexError)"

text \<open>The info dict of a sample: its values are Python values or images.\<close>

datatype info_value = InfoValue py_value | InfoImage image

type_synonym info_dict = "string \<Rightarrow> info_value option"

definition AddInfoDict_call :: "'img \<times> py_value \<Rightarrow> 'img \<times> py_value \<times> info_dict" where
  "AddInfoDict_call sample =
     (case sample of (img, target) \<Rightarrow>
        (img, target, [''original_target'' \<mapsto> InfoValue target]))"

text \<open>
  \<^verbatim>\<open>CornerPixelToWhite\<close>. The object keeps the numeric value of \<^verbatim>\<open>p_backdoor\<close> (it is only
  compared), the corner name, the target class and the truth value of
  \<^verbatim>\<open>return_original\<close> (it is only tested). Comparing a non-number with \<open>0\<close> raises
  \<^verbatim>\<open>TypeError\<close>; the two assertions follow.
\<close>

record CornerPixelToWhite =
  p_backdoor :: real
  corner :: string
  target_class :: py_value
  return_original :: bool

definition CornerPixelToWhite_init ::
  "py_value \<Rightarrow> py_value \<Rightarrow> py_value \<Rightarrow> py_value \<Rightarrow> py_error + CornerPixelToWhite" where
  "CornerPixelToWhite_init p c tc ro =
     (case num_of p of
        None \<Rightarrow> Inl TypeError
      | Some x \<Rightarrow>
          if \<not> (0 \<le> x \<and> x \<le> 1) then Inl AssertionError
          else
            (case c of
               PyStr s \<Rightarrow>
                 if s \<in> set [''top-left'', ''top-right'', ''bottom-left'', ''bottom-right'']
                 then Inr \<lparr>p_backdoor = x, corner = s, target_class = tc,
                           return_original = truthy ro\<rparr>
                 else Inl AssertionError
             | _ \<Rightarrow> Inl AssertionError))"

text \<open>
  The float32 number nearest to a real number, ties to the even significand: 24 bits of
  significand, exponents from \<open>-126\<close>, subnormal numbers below. Numbers of magnitude
  \<open>2\<^sup>1\<^sup>2\<^sup>8\<close> and more, which become infinite, are outside the model.
\<close>

definition round_half_even :: "real \<Rightarrow> int" where
  "round_half_even x =
     (let f = \<lfloor>x\<rfloor>; d = x - of_int f
      in if d < 1 / 2 then f
         else if 1 / 2 < d then f + 1
         else if even f then f
         else f + 1)"

definition to_float32 :: "real \<Rightarrow> real" where
  "to_float32 x =
     (if x = 0 then 0
      else
        (let e = max \<lfloor>log 2 \<bar>x\<bar>\<rfloor> (- 126) - 23
         in of_int (round_half_even (x / 2 powr of_int e)) * 2 powr of_int e))"

text \<open>
  \<^verbatim>\<open>__call__\<close>, given the number \<open>r\<close> that \<^verbatim>\<open>torch.rand(1)\<close> draws. The draw is a float32
  tensor and \<^verbatim>\<open>torch.rand(1) > self.p_backdoor\<close> compares it in float32, with
  \<^verbatim>\<open>p_backdoor\<close> rounded to float32. The result is the returned sample; an exception of
  \<^verbatim>\<open>putpixel\<close> propagates.
\<close>

definition CornerPixelToWhite_call ::
  "CornerPixelToWhite \<Rightarrow> real \<Rightarrow> image \<times> py_value \<times> info_dict
   \<Rightarrow> py_error + image \<times> py_value \<times> info_dict" where
  "CornerPixelToWhite_call self r sample =
     (case sample of (img, target, info) \<Rightarrow>
        if r > to_float32 (p_backdoor self) then
          (let info1 = info(''backdoored'' \<mapsto> InfoValue (PyBool False));
               info2 = (if return_original self then info1(''original_img'' \<mapsto> InfoImage img)
                        else info1)
           in Inr (img, target, info2))
        else
          (let info1 = info(''backdoored'' \<mapsto> InfoValue (PyBool True));
               info2 = (if return_original self then info1(''original_img'' \<mapsto> InfoImage img)
                        else info1);
               width = int (img_width img);
               height = int (img_height img);
               painted =
                 (if corner self = ''top-left'' then putpixel img (0, 0) 255
                  else if corner self = ''top-right'' then putpixel img (width - 1, 0) 255
                  else if corner self = ''bottom-left'' then putpixel img (0, height - 1) 255
                  else if corner self = ''bottom-right''
                    then putpixel img (width - 1, height - 1) 255
                  else Inr img)
           in case painted of
                Inl e \<Rightarrow> Inl e
              | Inr img' \<Rightarrow> Inr (img', target_class self, info2)))"

text \<open>
  A numpy array: its shape and its entries in row-major order. \<^verbatim>\<open>to_numpy\<close> of
  \<^verbatim>\<open>data.py\<close> turns an image into an array of shape \<open>(height, width)\<close>.
\<close>

record ndarray =
  nd_shape :: "nat list"
  nd_data :: "real list"

definition to_numpy :: "image \<Rightarrow> ndarray" where
  "to_numpy img =
     \<lparr>nd_shape = [img_height img, img_width img],
      nd_data = map (\<lambda>v. real v / 255) (img_data img)\<rparr>"

text \<open>
  \<^verbatim>\<open>np.random.normal(loc, scale, shape)\<close>: a negative \<^verbatim>\<open>scale\<close> raises \<^verbatim>\<open>ValueError\<close>;
  otherwise entry \<open>k\<close> is \<open>loc + scale * z k\<close> for the standard normal draws \<open>z\<close> of the
  generator.
\<close>

definition np_random_normal ::
  "real \<Rightarrow> real \<Rightarrow> nat list \<Rightarrow> (nat \<Rightarrow> real) \<Rightarrow> py_error + ndarray" where
  "np_random_normal loc sd shape z =
     (if sd < 0 then Inl ValueError
      else Inr \<lparr>nd_shape = shape,
                nd_data = map (\<lambda>k. loc + sd * z k) [0..<prod_list shape]\<rparr>)"

text \<open>\<^verbatim>\<open>a + b\<close> for two arrays of the same shape.\<close>

definition nd_add :: "ndarray \<Rightarrow> ndarray \<Rightarrow> ndarray" where
  "nd_add a b = \<lparr>nd_shape = nd_shape a, nd_data = map2 (+) (nd_data a) (nd_data b)\<rparr>"

text \<open>
  \<^verbatim>\<open>GaussianNoise\<close>: the constructor stores \<^verbatim>\<open>std\<close> as it is given. \<^verbatim>\<open>np.random.normal\<close>
  converts its scale argument to a double: a number converts to itself, and what numpy makes
  of any other value (it parses a string and raises \<^verbatim>\<open>ValueError\<close> if that fails) is the
  function \<open>convert\<close>, a parameter of \<^verbatim>\<open>__call__\<close>.
\<close>

record GaussianNoise =
  std :: py_value

definition GaussianNoise_init :: "py_value \<Rightarrow> GaussianNoise" where
  "GaussianNoise_init s = \<lparr>std = s\<rparr>"

definition np_scale :: "(py_value \<Rightarrow> py_error + real) \<Rightarrow> py_value \<Rightarrow> py_error + real" where
  "np_scale convert v = (case num_of v of Some s \<Rightarrow> Inr s | None \<Rightarrow> convert v)"

definition GaussianNoise_call ::
  "GaussianNoise \<Rightarrow> (py_value \<Rightarrow> py_error + real) \<Rightarrow> (nat \<Rightarrow> real) \<Rightarrow> ndarray \<times> 't \<times> 'd
   \<Rightarrow> py_error + ndarray \<times> 't \<times> 'd" where
  "GaussianNoise_call self convert z sample =
     (case sample of (img, target, info) \<Rightarrow>
        (case np_scale convert (std self) of
           Inl e \<Rightarrow> Inl e
         | Inr s \<Rightarrow>
             (case np_random_normal 0 s (nd_shape img) z of
                Inl e \<Rightarrow> Inl e
              | Inr noise_array \<Rightarrow> Inr (nd_add img noise_array, target, info))))"

text \<open>
  The position of the pixel in the named corner of an image; a name that is none of the
  first three stands for \<^verbatim>\<open>bottom-right\<close>.
\<close>

definition corner_position :: "string \<Rightarrow> image \<Rightarrow> int \<times> int" where
  "corner_position c img =
     (if c = ''top-left'' then (0, 0)
      else if c = ''top-right'' then (int (img_width img) - 1, 0)
      else if c = ''bottom-left'' then (0, int (img_height img) - 1)
      else (int (img_width img) - 1, int (img_height img) - 1))"

section \<open>abstractions/data.py: get\_transforms\<close>

text \<open>
  A dict with string keys is a list of key and value pairs with distinct keys: the keyword
  arguments of a transform, and the configuration that maps transform names to them.
\<close>

type_synonym kwargs = "(string \<times> py_value) list"

type_synonym transforms_config = "(string \<times> kwargs) list"

text \<open>
  The call \<^verbatim>\<open>CornerPixelToWhite(**kw)\<close>: a keyword that is no parameter of \<^verbatim>\<open>__init__\<close> and
  a missing \<^verbatim>\<open>p_backdoor\<close> raise \<^verbatim>\<open>TypeError\<close>; the other parameters have defaults. Likewise
  \<^verbatim>\<open>GaussianNoise(**kw)\<close>, whose only parameter is \<^verbatim>\<open>std\<close>.
\<close>

definition CornerPixelToWhite_new :: "kwargs \<Rightarrow> py_error + CornerPixelToWhite" where
  "CornerPixelToWhite_new kw =
     (if \<not> list_all
            (\<lambda>k. k \<in> set [''p_backdoor'', ''corner'', ''target_class'', ''return_original''])
            (map fst kw)
      then Inl TypeError
      else
        (case map_of kw ''p_backdoor'' of
           None \<Rightarrow> Inl TypeError
         | Some p \<Rightarrow>
             CornerPixelToWhite_init p
               (case map_of kw ''corner'' of None \<Rightarrow> PyStr ''top-left'' | Some c \<Rightarrow> c)
               (case map_of kw ''target_class'' of None \<Rightarrow> PyInt 0 | Some tc \<Rightarrow> tc)
               (case map_of kw ''return_original'' of None \<Rightarrow> PyBool False | Some ro \<Rightarrow> ro)))"

definition GaussianNoise_new :: "kwargs \<Rightarrow> py_error + GaussianNoise" where
  "GaussianNoise_new kw =
     (if \<not> list_all (\<lambda>k. k = ''std'') (map fst kw) then Inl TypeError
      else
        (case map_of kw ''std'' of
           None \<Rightarrow> Inl TypeError
         | Some s \<Rightarrow> Inr (GaussianNoise_init s)))"

text \<open>
  The transforms of the returned list. \<^verbatim>\<open>custom_transforms.NoiseBackdoor\<close> is not among the
  sources: its objects are of a type \<open>'n\<close>, and its constructor is a parameter of
  \<^verbatim>\<open>get_transforms\<close>. \<open>adapted_to_numpy\<close> is \<^verbatim>\<open>utils.adapt_transform(to_numpy)\<close>.
\<close>

datatype 'n transform =
    AddInfoDict
  | CornerPixelToWhite_obj CornerPixelToWhite
  | adapted_to_numpy
  | GaussianNoise_obj GaussianNoise
  | NoiseBackdoor_obj 'n

text \<open>A class of \<^verbatim>\<open>PIL_TRANSFORMS\<close> or \<^verbatim>\<open>NP_TRANSFORMS\<close> as a function to list elements.\<close>

definition instantiate ::
  "(kwargs \<Rightarrow> py_error + 'a) \<Rightarrow> ('a \<Rightarrow> 't) \<Rightarrow> kwargs \<Rightarrow> py_error + 't" where
  "instantiate cls wrap kw = (case cls kw of Inl e \<Rightarrow> Inl e | Inr obj \<Rightarrow> Inr (wrap obj))"

text \<open>
  The inner function \<^verbatim>\<open>process_transform\<close>: it returns the list \<^verbatim>\<open>transforms\<close> as it is
  after the call, or the exception of the constructor.
\<close>

definition process_transform ::
  "transforms_config \<Rightarrow> 't list \<Rightarrow> string \<times> (kwargs \<Rightarrow> py_error + 't) \<Rightarrow> py_error + 't list" where
  "process_transform config transforms entry =
     (case entry of (name, transform) \<Rightarrow>
        (case map_of config name of
           None \<Rightarrow> Inr transforms
         | Some transform_config \<Rightarrow>
             (case map_of transform_config ''enabled'' of
                None \<Rightarrow>
                  (case transform transform_config of
                     Inl e \<Rightarrow> Inl e
                   | Inr t \<Rightarrow> Inr (transforms @ [t]))
              | Some en \<Rightarrow>
                  if \<not> truthy en then Inr transforms
                  else
                    (case transform (filter (\<lambda>kv. fst kv \<noteq> ''enabled'') transform_config) of
                       Inl e \<Rightarrow> Inl e
                     | Inr t \<Rightarrow> Inr (transforms @ [t])))))"

text \<open>The loops \<^verbatim>\<open>for name, transform in ...: process_transform(name, transform)\<close>.\<close>

fun process_transforms ::
  "transforms_config \<Rightarrow> 't list \<Rightarrow> (string \<times> (kwargs \<Rightarrow> py_error + 't)) list
   \<Rightarrow> py_error + 't list" where
  "process_transforms config transforms [] = Inr transforms"
| "process_transforms config transforms (entry # entries) =
     (case process_transform config transforms entry of
        Inl e \<Rightarrow> Inl e
      | Inr transforms' \<Rightarrow> process_transforms config transforms' entries)"

definition get_transforms ::
  "(kwargs \<Rightarrow> py_error + 'n) \<Rightarrow> transforms_config \<Rightarrow> py_error + 'n transform list" where
  "get_transforms NoiseBackdoor_new config =
     (let PIL_TRANSFORMS =
            [(''pixel_backdoor'', instantiate CornerPixelToWhite_new CornerPixelToWhite_obj)];
          NP_TRANSFORMS =
            [(''noise'', instantiate GaussianNoise_new GaussianNoise_obj),
             (''noise_backdoor'', instantiate NoiseBackdoor_new NoiseBackdoor_obj)];
          transforms = [AddInfoDict]
      in case process_transforms config transforms PIL_TRANSFORMS of
           Inl e \<Rightarrow> Inl e
         | Inr transforms' \<Rightarrow>
             process_transforms config (transforms' @ [adapted_to_numpy]) NP_TRANSFORMS)"

text \<open>
  A transform is enabled when the configuration names it and its \<^verbatim>\<open>enabled\<close> entry, if
  there is one, is true; \<open>enabled_kwargs\<close> gives the keyword arguments of an enabled
  transform, and \<open>built_part\<close> the list elements (none or one) that it contributes.
\<close>

definition enabled_kwargs :: "transforms_config \<Rightarrow> string \<Rightarrow> kwargs option" where
  "enabled_kwargs config name =
     (case map_of config name of
        None \<Rightarrow> None
      | Some transform_config \<Rightarrow>
          (case map_of transform_config ''enabled'' of
             None \<Rightarrow> Some transform_config
           | Some en \<Rightarrow>
               if truthy en then Some (filter (\<lambda>kv. fst kv \<noteq> ''enabled'') transform_config)
               else None))"

definition built_part ::
  "(kwargs \<Rightarrow> py_error + 'a) \<Rightarrow> ('a \<Rightarrow> 't) \<Rightarrow> transforms_config \<Rightarrow> string
   \<Rightarrow> py_error + 't list" where
  "built_part cls wrap config name =
     (case enabled_kwargs config name of
        None \<Rightarrow> Inr []
      | Some kw \<Rightarrow> (case cls kw of Inl e \<Rightarrow> Inl e | Inr obj \<Rightarrow> Inr [wrap obj]))"

section \<open>Gradients\<close>





section \<open>abstractions/train\_base.py: ClassificationTrainer\<close>

text \<open>
  The logits that \<^verbatim>\<open>state.apply_fn\<close> returns: an array of shape
  \<open>(length logit_rows, num_columns)\<close>, each row with \<open>num_columns\<close> entries. The number of
  columns is kept beside the rows, since the shape counts also when there is no row.
\<close>

record logits_array =
  num_columns :: nat
  logit_rows :: "real list list"

text \<open>
  Broadcasting, as \<^verbatim>\<open>jax.numpy\<close> does it along one axis: two sizes are compatible when
  they are equal or one of them is \<open>1\<close>, and the axis of size \<open>1\<close> is repeated.
\<close>

definition compatible :: "nat \<Rightarrow> nat \<Rightarrow> bool" where
  "compatible m n \<longleftrightarrow> m = n \<or> m = 1 \<or> n = 1"

definition broadcast_pairs :: "'a list \<Rightarrow> 'b list \<Rightarrow> ('a \<times> 'b) list" where
  "broadcast_pairs xs ys =
     (if length xs = length ys then zip xs ys
      else if length xs = 1 then map (\<lambda>y. (hd xs, y)) ys
      else map (\<lambda>x. (x, hd ys)) xs)"

text \<open>
  \<^verbatim>\<open>optax.softmax_cross_entropy(logits, labels)\<close> is
  \<^verbatim>\<open>-sum(labels * log_softmax(logits), axis=-1)\<close>: the product is broadcast, and raises
  \<^verbatim>\<open>TypeError\<close> when the shapes \<open>(length labels, n)\<close> of the labels and of the logits are
  not compatible. On logits and labels of one shape it is \<open>softmax_cross_entropy\<close>.
\<close>

definition cross_entropy_values :: "logits_array \<Rightarrow> batch_array \<Rightarrow> real list" where
  "cross_entropy_values logits labels =
     map (\<lambda>(lz, y). - sum_list (map (\<lambda>(a, b). a * b) (broadcast_pairs y lz)))
       (broadcast_pairs (map log_softmax (logit_rows logits)) labels)"

definition optax_softmax_cross_entropy ::
  "logits_array \<Rightarrow> nat \<Rightarrow> batch_array \<Rightarrow> py_error + real list" where
  "optax_softmax_cross_entropy logits n labels =
     (if \<not> compatible (num_columns logits) n
         \<or> \<not> compatible (length (logit_rows logits)) (length labels)
      then Inl TypeError
      else Inr (cross_entropy_values logits labels))"

text \<open>
  \<^verbatim>\<open>jnp.argmax(logits, -1) == labels\<close>: the argmax along an axis of size \<open>0\<close> raises
  \<^verbatim>\<open>ValueError\<close>, and the comparison is broadcast.
\<close>

definition argmax_equals :: "logits_array \<Rightarrow> int list \<Rightarrow> py_error + bool list" where
  "argmax_equals logits labels =
     (if num_columns logits = 0 then Inl ValueError
      else if \<not> compatible (length (logit_rows logits)) (length labels) then Inl TypeError
      else Inr (map (\<lambda>(k, l). int k = l)
                  (broadcast_pairs (map argmax (logit_rows logits)) labels)))"

text \<open>
  The training state is an object of the training framework, which is not among the
  sources; \<^verbatim>\<open>train_step\<close> uses its attributes \<^verbatim>\<open>params\<close> and \<^verbatim>\<open>apply_fn\<close> and its method
  \<^verbatim>\<open>apply_gradients\<close>, which are the fields of \<open>'s TrainState\<close> for a state type \<open>'s\<close>. The
  parameters are the list of their entries; \<open>get_apply_fn cls state ps images\<close> is
  \<^verbatim>\<open>state.apply_fn({"params": ps}, images)\<close>.
\<close>

record 's TrainState =
  get_params :: "'s \<Rightarrow> real list"
  get_apply_fn :: "'s \<Rightarrow> real list \<Rightarrow> batch_array \<Rightarrow> logits_array"
  apply_gradients :: "'s \<Rightarrow> real list \<Rightarrow> 's"

text \<open>
  The inner function \<^verbatim>\<open>losses\<close>, with \<^verbatim>\<open>self.num_classes\<close> as its first argument: the pair
  of loss and accuracy, or the exception of a library call.
\<close>

definition losses ::
  "nat \<Rightarrow> 's TrainState \<Rightarrow> real list \<Rightarrow> 's \<Rightarrow> batch_array \<times> int list \<times> 'i
   \<Rightarrow> py_error + real \<times> real" where
  "losses num_classes cls ps state batch =
     (case batch of (images, labels, infos) \<Rightarrow>
        (let logits = get_apply_fn cls state ps images;
             onehot = one_hot labels num_classes
         in case optax_softmax_cross_entropy logits num_classes onehot of
              Inl e \<Rightarrow> Inl e
            | Inr ls \<Rightarrow>
                (case argmax_equals logits labels of
                   Inl e \<Rightarrow> Inl e
                 | Inr correct \<Rightarrow>
                     Inr (jnp_mean ls, jnp_mean (map (\<lambda>c. if c then 1 else 0) correct)))))"

text \<open>
  \<^verbatim>\<open>train_step\<close> and \<^verbatim>\<open>eval_step\<close>. \<^verbatim>\<open>jax.value_and_grad(loss_fn, has_aux=True)\<close> is the
  argument \<open>value_and_grad_aux\<close>: it runs \<^verbatim>\<open>loss_fn\<close>, so an exception of \<^verbatim>\<open>loss_fn\<close> is its
  own. The metrics dict has the keys \<^verbatim>\<open>loss\<close> and \<^verbatim>\<open>accuracy\<close>.
\<close>

definition train_step ::
  "((real list \<Rightarrow> py_error + real \<times> real) \<Rightarrow> real list \<Rightarrow> py_error + (real \<times> real) \<times> real list)
   \<Rightarrow> nat \<Rightarrow> 's TrainState \<Rightarrow> 's \<Rightarrow> batch_array \<times> int list \<times> 'i
   \<Rightarrow> py_error + 's \<times> (string \<Rightarrow> real option)" where
  "train_step value_and_grad_aux num_classes cls state batch =
     (let loss_fn = (\<lambda>ps. losses num_classes cls ps state batch)
      in case value_and_grad_aux loss_fn (get_params cls state) of
           Inl e \<Rightarrow> Inl e
         | Inr ((traced_loss, traced_accuracy), grads) \<Rightarrow>
             (case losses num_classes cls (get_params cls state) state batch of
                Inl e \<Rightarrow> Inl e
              | Inr (loss, accuracy) \<Rightarrow>
                  Inr (apply_gradients cls state grads,
                       [''loss'' \<mapsto> loss, ''accuracy'' \<mapsto> accuracy])))"

definition eval_step ::
  "nat \<Rightarrow> 's TrainState \<Rightarrow> 's \<Rightarrow> batch_array \<times> int list \<times> 'i
   \<Rightarrow> py_error + (string \<Rightarrow> real option)" where
  "eval_step num_classes cls state batch =
     (case losses num_classes cls (get_params cls state) state batch of
        Inl e \<Rightarrow> Inl e
      | Inr (loss, accuracy) \<Rightarrow> Inr [''loss'' \<mapsto> loss, ''accuracy'' \<mapsto> accuracy])"

text \<open>
  A gradient with respect to the parameters, and what
  \<^verbatim>\<open>jax.value_and_grad(f, has_aux=True)(x)\<close> promises: the exception of \<open>f\<close> at \<open>x\<close> if there
  is one, otherwise the value of \<open>f\<close> and a gradient of its first component.
\<close>

definition is_gradient_flat :: "(real list \<Rightarrow> real) \<Rightarrow> real list \<Rightarrow> real list \<Rightarrow> bool" where
  "is_gradient_flat f x g \<longleftrightarrow>
     length g = length x
     \<and> (\<forall>i < length x. ((\<lambda>t. f (x[i := t])) has_real_derivative g ! i) (at (x ! i)))"

definition loss_of :: "py_error + real \<times> real \<Rightarrow> real" where
  "loss_of outcome = (case outcome of Inl e \<Rightarrow> 0 | Inr (loss, aux) \<Rightarrow> loss)"

definition differentiates_aux ::
  "((real list \<Rightarrow> py_error + real \<times> real) \<Rightarrow> real list \<Rightarrow> py_error + (real \<times> real) \<times> real list)
   \<Rightarrow> (real list \<Rightarrow> py_error + real \<times> real) \<Rightarrow> real list \<Rightarrow> bool" where
  "differentiates_aux value_and_grad_aux f x \<longleftrightarrow>
     (case f x of
        Inl e \<Rightarrow> value_and_grad_aux f x = Inl e
      | Inr v \<Rightarrow>
          (case value_and_grad_aux f x of
             Inl e \<Rightarrow> False
           | Inr (v', g) \<Rightarrow> v' = v \<and> is_gradient_flat (\<lambda>ps. loss_of (f ps)) x g))"

text \<open>
  The shapes of the logits fit the labels and the number of classes; and the fraction of
  the examples whose argmax prediction equals the label.
\<close>

definition shapes_fit :: "logits_array \<Rightarrow> int list \<Rightarrow> nat \<Rightarrow> bool" where
  "shapes_fit logits labels num_classes \<longleftrightarrow>
     compatible (num_columns logits) num_classes
     \<and> compatible (length (logit_rows logits)) (length labels)
     \<and> 0 < num_columns logits"

definition fraction_correct :: "logits_array \<Rightarrow> int list \<Rightarrow> real" where
  "fraction_correct logits labels =
     real (length (filter (\<lambda>(k, l). int k = l)
             (broadcast_pairs (map argmax (logit_rows logits)) labels)))
       / real (length (broadcast_pairs (map argmax (logit_rows logits)) labels))"

text \<open>
  A state that is its own parameter list, a model whose logits are the parameters whatever
  the image, gradient descent with step size 1, and the value and gradient of the loss at
  the parameters \<open>[0, 0]\<close> for one example with label \<open>0\<close>.
\<close>

definition bias_only :: "real list TrainState" where
  "bias_only =
     \<lparr>get_params = (\<lambda>state. state),
      get_apply_fn =
        (\<lambda>state ps images. \<lparr>num_columns = length ps, logit_rows = map (\<lambda>_. ps) images\<rparr>),
      apply_gradients = (\<lambda>state grads. map2 (-) state grads)\<rparr>"

definition bias_gradient ::
  "(real list \<Rightarrow> py_error + real \<times> real) \<Rightarrow> real list \<Rightarrow> py_error + (real \<times> real) \<times> real list" where
  "bias_gradient f x = (case f x of Inl e \<Rightarrow> Inl e | Inr v \<Rightarrow> Inr (v, [- 1 / 2, 1 / 2]))"

section \<open>Properties\<close>

subsection \<open>ToyFeaturesTask\<close>

text \<open>
  Claim C5. For every \<^verbatim>\<open>ToyFeaturesTask\<close> with noise parameter \<open>s\<close>, the training data
  configuration that \<^verbatim>\<open>_init_train_data\<close> stores is correlated, the anomalous test data
  configuration is decorrelated, and both carry the noise value \<open>s\<close>.
\<close>

theorem toy_features_task_configs:
  "train_data (init_train_data self) = Some \<lparr>correlated = True, noise = task_noise self\<rparr>
   \<and> get_anomalous_test_data self = \<lparr>correlated = False, noise = task_noise self\<rparr>
   \<and> correlated (the (train_data (init_train_data self)))
   \<and> \<not> correlated (get_anomalous_test_data self)
   \<and> noise (the (train_data (init_train_data self))) = noise (get_anomalous_test_data self)"
  by (simp add: init_train_data_def get_anomalous_test_data_def)

subsection \<open>The attack loop\<close>

lemma running_mean_step:
  fixes m x :: real
  shows "(real i * m + x) / (real i + 1) * real (Suc i) = real i * m + x"
  by (simp add: field_simps)

lemma attack_loop_means:
  "\<exists>k. batches_done (attack_loop env cfg i st bs) = batches_done st + k
     \<and> k \<le> length bs \<and> (bs \<noteq> [] \<longrightarrow> 1 \<le> k)
     \<and> (k < length bs \<longrightarrow> limit_reached cfg (attack_loop env cfg i st bs))
     \<and> mean_original_loss (attack_loop env cfg i st bs) * real (i + k)
         = real i * mean_original_loss st + sum_list (map (batch_original_loss env cfg) (take k bs))
     \<and> mean_new_loss (attack_loop env cfg i st bs) * real (i + k)
         = real i * mean_new_loss st + sum_list (map (batch_new_loss env cfg) (take k bs))
     \<and> mean_new_accuracy (attack_loop env cfg i st bs) * real (i + k)
         = real i * mean_new_accuracy st + sum_list (map (batch_new_accuracy env cfg) (take k bs))"
proof (induction bs arbitrary: i st)
  case Nil
  show ?case by (rule exI [of _ 0]) simp
next
  case (Cons b bs)
  let ?st' = "attack_body env cfg i st b"
  have body:
    "batches_done ?st' = Suc (batches_done st)"
    "mean_original_loss ?st' * real (Suc i) = real i * mean_original_loss st + batch_original_loss env cfg b"
    "mean_new_loss ?st' * real (Suc i) = real i * mean_new_loss st + batch_new_loss env cfg b"
    "mean_new_accuracy ?st' * real (Suc i) = real i * mean_new_accuracy st + batch_new_accuracy env cfg b"
  proof -
    show "batches_done ?st' = Suc (batches_done st)" by (simp add: attack_body_def)
    have "mean_original_loss ?st'
        = (real i * mean_original_loss st + batch_original_loss env cfg b) / (real i + 1)"
      by (simp add: attack_body_def)
    then show "mean_original_loss ?st' * real (Suc i)
        = real i * mean_original_loss st + batch_original_loss env cfg b"
      by (simp only: running_mean_step)
    have "mean_new_loss ?st' = (real i * mean_new_loss st + batch_new_loss env cfg b) / (real i + 1)"
      by (simp add: attack_body_def)
    then show "mean_new_loss ?st' * real (Suc i)
        = real i * mean_new_loss st + batch_new_loss env cfg b"
      by (simp only: running_mean_step)
    have "mean_new_accuracy ?st'
        = (real i * mean_new_accuracy st + batch_new_accuracy env cfg b) / (real i + 1)"
      by (simp add: attack_body_def)
    then show "mean_new_accuracy ?st' * real (Suc i)
        = real i * mean_new_accuracy st + batch_new_accuracy env cfg b"
      by (simp only: running_mean_step)
  qed
  show ?case
  proof (cases "limit_reached cfg ?st'")
    case True
    then have "attack_loop env cfg i st (b # bs) = ?st'" by simp
    then show ?thesis using body True by (intro exI [of _ 1]) simp
  next
    case False
    then have unfold: "attack_loop env cfg i st (b # bs) = attack_loop env cfg (Suc i) ?st' bs"
      by simp
    from Cons.IH [of "Suc i" ?st'] obtain k where k:
      "batches_done (attack_loop env cfg (Suc i) ?st' bs) = batches_done ?st' + k"
      "k \<le> length bs"
      "k < length bs \<longrightarrow> limit_reached cfg (attack_loop env cfg (Suc i) ?st' bs)"
      "mean_original_loss (attack_loop env cfg (Suc i) ?st' bs) * real (Suc i + k)
         = real (Suc i) * mean_original_loss ?st' + sum_list (map (batch_original_loss env cfg) (take k bs))"
      "mean_new_loss (attack_loop env cfg (Suc i) ?st' bs) * real (Suc i + k)
         = real (Suc i) * mean_new_loss ?st' + sum_list (map (batch_new_loss env cfg) (take k bs))"
      "mean_new_accuracy (attack_loop env cfg (Suc i) ?st' bs) * real (Suc i + k)
         = real (Suc i) * mean_new_accuracy ?st' + sum_list (map (batch_new_accuracy env cfg) (take k bs))"
      by blast
    show ?thesis
      unfolding unfold
      apply (rule exI [of _ "Suc k"])
      using k body by (simp add: mult.commute)
  qed
qed

lemma mean_of_total:
  fixes m :: real
  assumes "m * real k = sum_list xs" "length xs = k" "1 \<le> k"
  shows "m = jnp_mean xs"
  using assms by (simp add: jnp_mean_def field_simps)

text \<open>
  Claim C3. For every sequence of batches of which the loop processes \<open>n \<ge> 1\<close> (all of
  them, or those up to the batch at which \<^verbatim>\<open>max_examples\<close> is reached), the running
  updates \<open>mean = (i * mean + x\<^sub>i) / (i + 1)\<close> leave \<^verbatim>\<open>mean_original_loss\<close>,
  \<^verbatim>\<open>mean_new_loss\<close> and \<^verbatim>\<open>mean_new_accuracy\<close> equal to the unweighted arithmetic mean of
  the per-batch values of the \<open>n\<close> processed batches, whatever the batch sizes.
\<close>

theorem attack_running_means:
  assumes nonempty: "bs \<noteq> []"
  shows "1 \<le> batches_done (attack_loop env cfg 0 initial_state bs)
     \<and> batches_done (attack_loop env cfg 0 initial_state bs) \<le> length bs
     \<and> (batches_done (attack_loop env cfg 0 initial_state bs) < length bs
          \<longrightarrow> limit_reached cfg (attack_loop env cfg 0 initial_state bs))
     \<and> mean_original_loss (attack_loop env cfg 0 initial_state bs)
         = jnp_mean (map (batch_original_loss env cfg)
             (take (batches_done (attack_loop env cfg 0 initial_state bs)) bs))
     \<and> mean_new_loss (attack_loop env cfg 0 initial_state bs)
         = jnp_mean (map (batch_new_loss env cfg)
             (take (batches_done (attack_loop env cfg 0 initial_state bs)) bs))
     \<and> mean_new_accuracy (attack_loop env cfg 0 initial_state bs)
         = jnp_mean (map (batch_new_accuracy env cfg)
             (take (batches_done (attack_loop env cfg 0 initial_state bs)) bs))"
proof -
  let ?st = "attack_loop env cfg 0 initial_state bs"
  from attack_loop_means [of env cfg 0 initial_state bs] nonempty
  obtain k where k: "batches_done ?st = k" "k \<le> length bs" "1 \<le> k"
    "k < length bs \<longrightarrow> limit_reached cfg ?st"
    "mean_original_loss ?st * real k = sum_list (map (batch_original_loss env cfg) (take k bs))"
    "mean_new_loss ?st * real k = sum_list (map (batch_new_loss env cfg) (take k bs))"
    "mean_new_accuracy ?st * real k = sum_list (map (batch_new_accuracy env cfg) (take k bs))"
    by (auto simp: initial_state_def)
  have "mean_original_loss ?st = jnp_mean (map (batch_original_loss env cfg) (take k bs))"
    by (rule mean_of_total [OF k(5) _ k(3)]) (use k(2) in simp)
  moreover have "mean_new_loss ?st = jnp_mean (map (batch_new_loss env cfg) (take k bs))"
    by (rule mean_of_total [OF k(6) _ k(3)]) (use k(2) in simp)
  moreover have "mean_new_accuracy ?st = jnp_mean (map (batch_new_accuracy env cfg) (take k bs))"
    by (rule mean_of_total [OF k(7) _ k(3)]) (use k(2) in simp)
  ultimately show ?thesis using k(1-4) by simp
qed

lemma clip_unit_range: "unit_range (jnp_clip x 0 1)"
  by (simp add: unit_range_def jnp_clip_def list_all_iff)

lemma attack_loop_clipped:
  "list_all unit_range (adv_examples st)
   \<Longrightarrow> list_all unit_range (adv_examples (attack_loop env cfg i st bs))"
proof (induction bs arbitrary: i st)
  case Nil
  then show ?case by simp
next
  case (Cons b bs)
  have "list_all unit_range (adv_examples (attack_body env cfg i st b))"
    using Cons.prems
    by (cases b) (simp add: attack_body_def batch_adv_inputs_def clip_unit_range)
  then show ?case using Cons.IH by (simp add: Let_def)
qed

lemma unit_range_concat: "list_all unit_range xss \<Longrightarrow> unit_range (concat xss)"
  by (induction xss) (simp_all add: unit_range_def)

text \<open>
  Claim C8. Every array file that \<^verbatim>\<open>attack\<close> writes holds only values in the closed interval
  \<open>[0, 1]\<close>: each batch of FGSM outputs is clipped before it is appended, and the saved
  array is the concatenation of the appended batches.
\<close>

theorem attack_saves_clipped_examples:
  assumes run: "attack env cfg fs = (outcome, fs')"
    and saved: "fs' p = Some (ArrayFile xs)"
    and new: "fs' p \<noteq> fs p"
  shows "unit_range xs"
proof -
  let ?st = "attack_loop env cfg 0 initial_state (dataloader env)"
  have inv: "unit_range (concat (adv_examples ?st))"
    by (rule unit_range_concat, rule attack_loop_clipped) (simp add: initial_state_def)
  from run saved new show ?thesis
    using inv
    by (auto simp: attack_def Let_def split: if_splits option.splits)
qed


lemmas attack_eval = attack_body_def batch_adv_inputs_def batch_original_loss_def
  batch_new_accuracy_def batch_new_loss_def fgsm_def fgsm_loss_def limit_reached_def
  initial_state_def example_env_def example_cfg_def constant_model_def zero_gradient_def
  jnp_mean_def jnp_clip_def jnp_sign_def scale_def add_def one_hot_def last_dim_def
  softmax_cross_entropy_def log_softmax_def accuracy_of_def

theorem attack_running_means_witness:
  "[([[1 / 2]], [0], ()), ([[1 / 2], [1 / 2], [1 / 2]], [1, 1, 1], ())] \<noteq> []
   \<and> batches_done (attack_loop (example_env []) example_cfg 0 initial_state
        [([[1 / 2]], [0], ()), ([[1 / 2], [1 / 2], [1 / 2]], [1, 1, 1], ())]) = 2
   \<and> mean_new_accuracy (attack_loop (example_env []) example_cfg 0 initial_state
        [([[1 / 2]], [0], ()), ([[1 / 2], [1 / 2], [1 / 2]], [1, 1, 1], ())]) = 1 / 2
   \<and> mean_original_loss (attack_loop (example_env []) example_cfg 0 initial_state
        [([[1 / 2]], [0], ()), ([[1 / 2], [1 / 2], [1 / 2]], [1, 1, 1], ())]) = ln 2"
proof -
  let ?bs = "[([[1 / 2 :: real]], [0 :: int], ()), ([[1 / 2], [1 / 2], [1 / 2]], [1, 1, 1], ())]"
  have iters: "batches_done (attack_loop (example_env []) example_cfg 0 initial_state ?bs) = 2"
    by (simp add: attack_eval)
  have vals: "map (batch_new_accuracy (example_env []) example_cfg) ?bs = [1, 0]"
    "map (batch_original_loss (example_env []) example_cfg) ?bs = [ln 2, ln 2]"
    by (simp_all add: attack_eval)
  have ne: "?bs \<noteq> []" by simp
  have tk: "take 2 ?bs = ?bs" by simp
  note means = attack_running_means [OF ne, of "example_env []" example_cfg, unfolded iters tk vals]
  from means have "mean_new_accuracy (attack_loop (example_env []) example_cfg 0 initial_state ?bs)
      = jnp_mean [1, 0]"
    by blast
  moreover from means
  have "mean_original_loss (attack_loop (example_env []) example_cfg 0 initial_state ?bs)
      = jnp_mean [ln 2, ln 2]"
    by blast
  ultimately show ?thesis using ne iters by (simp add: jnp_mean_def)
qed

theorem attack_saves_clipped_examples_witness:
  "snd (attack (example_env [([[3 / 2, 1 / 4]], [1], ())]) example_cfg Map.empty)
      ''run/adv_examples.pytree'' = Some (ArrayFile [[1, 1 / 4]])
   \<and> snd (attack (example_env [([[3 / 2, 1 / 4]], [1], ())]) example_cfg Map.empty)
      ''run/adv_examples.pytree'' \<noteq> Map.empty ''run/adv_examples.pytree''
   \<and> unit_range [[1, 1 / 4]]"
proof -
  let ?env = "example_env [([[3 / 2, 1 / 4]], [1], ())]"
  have saved: "snd (attack ?env example_cfg Map.empty) ''run/adv_examples.pytree''
      = Some (ArrayFile [[1, 1 / 4]])"
    by (simp add: attack_def examples_file_def in_dir_def attack_eval Let_def)
  have new: "snd (attack ?env example_cfg Map.empty) ''run/adv_examples.pytree''
      \<noteq> Map.empty ''run/adv_examples.pytree''"
    by (simp add: saved)
  show ?thesis
    using attack_saves_clipped_examples [OF prod.collapse [symmetric] saved new] saved new
    by simp
qed


subsection \<open>get\_transforms\<close>

lemma process_transform_built:
  "process_transform config transforms (name, instantiate cls wrap)
     = (case built_part cls wrap config name of
          Inl e \<Rightarrow> Inl e
        | Inr part \<Rightarrow> Inr (transforms @ part))"
  by (auto simp: built_part_def enabled_kwargs_def process_transform_def instantiate_def
      split: option.splits if_splits sum.splits)

lemma built_part_cases:
  assumes "built_part cls wrap config name = Inr part"
  shows "(enabled_kwargs config name = None \<longrightarrow> part = [])
     \<and> (\<forall>kw. enabled_kwargs config name = Some kw
            \<longrightarrow> (\<exists>obj. cls kw = Inr obj \<and> part = [wrap obj]))"
  using assms by (auto simp: built_part_def split: option.splits sum.splits)

lemma disabled_omitted:
  "map_of config name = Some transform_config
   \<Longrightarrow> map_of transform_config ''enabled'' = Some (PyBool False)
   \<Longrightarrow> enabled_kwargs config name = None"
  by (simp add: enabled_kwargs_def)

text \<open>
  Claim C4, amended. For every configuration mapping in which the constructor of every
  configured and not disabled transform accepts its keyword arguments, \<^verbatim>\<open>get_transforms\<close>
  returns the list that begins with \<^verbatim>\<open>AddInfoDict\<close>, continues with the \<^verbatim>\<open>pixel_backdoor\<close>
  transform if it is enabled, then the \<^verbatim>\<open>to_numpy\<close> conversion, then the enabled ones of
  \<^verbatim>\<open>noise\<close> and \<^verbatim>\<open>noise_backdoor\<close>, in this order; a transform whose configuration sets
  \<^verbatim>\<open>enabled\<close> to \<^verbatim>\<open>False\<close> is not enabled, so it is omitted. The three hypotheses name the
  parts \<open>pil\<close>, \<open>ns\<close> and \<open>nbs\<close> that the three constructors contribute.
\<close>

theorem get_transforms_order:
  assumes pil: "built_part CornerPixelToWhite_new CornerPixelToWhite_obj config ''pixel_backdoor''
      = Inr pil"
    and ns: "built_part GaussianNoise_new GaussianNoise_obj config ''noise'' = Inr ns"
    and nbs: "built_part NoiseBackdoor_new NoiseBackdoor_obj config ''noise_backdoor'' = Inr nbs"
  shows "get_transforms NoiseBackdoor_new config
           = Inr ([AddInfoDict] @ pil @ [adapted_to_numpy] @ ns @ nbs)
       \<and> (enabled_kwargs config ''pixel_backdoor'' = None \<longrightarrow> pil = [])
       \<and> (\<forall>kw. enabled_kwargs config ''pixel_backdoor'' = Some kw
              \<longrightarrow> (\<exists>obj. CornerPixelToWhite_new kw = Inr obj \<and> pil = [CornerPixelToWhite_obj obj]))
       \<and> (enabled_kwargs config ''noise'' = None \<longrightarrow> ns = [])
       \<and> (\<forall>kw. enabled_kwargs config ''noise'' = Some kw
              \<longrightarrow> (\<exists>obj. GaussianNoise_new kw = Inr obj \<and> ns = [GaussianNoise_obj obj]))
       \<and> (enabled_kwargs config ''noise_backdoor'' = None \<longrightarrow> nbs = [])
       \<and> (\<forall>kw. enabled_kwargs config ''noise_backdoor'' = Some kw
              \<longrightarrow> (\<exists>obj. NoiseBackdoor_new kw = Inr obj \<and> nbs = [NoiseBackdoor_obj obj]))
       \<and> (\<forall>name transform_config.
             map_of config name = Some transform_config
             \<and> map_of transform_config ''enabled'' = Some (PyBool False)
             \<longrightarrow> enabled_kwargs config name = None)"
proof -
  have result: "get_transforms NoiseBackdoor_new config
      = Inr ([AddInfoDict] @ pil @ [adapted_to_numpy] @ ns @ nbs)"
    unfolding get_transforms_def Let_def
    by (simp add: process_transform_built pil ns nbs)
  have omitted: "\<forall>name transform_config.
             map_of config name = Some transform_config
             \<and> map_of transform_config ''enabled'' = Some (PyBool False)
             \<longrightarrow> enabled_kwargs config name = None"
    by (simp add: disabled_omitted)
  from result built_part_cases [OF pil] built_part_cases [OF ns] built_part_cases [OF nbs] omitted
  show ?thesis by (intro conjI) (erule conjunct1 conjunct2 | assumption)+
qed

theorem get_transforms_order_witness:
  "built_part CornerPixelToWhite_new CornerPixelToWhite_obj
     [(''pixel_backdoor'', [(''p_backdoor'', PyFloat (1 / 10))]),
      (''noise'', [(''enabled'', PyBool False), (''std'', PyFloat (3 / 10))]),
      (''noise_backdoor'', [(''enabled'', PyBool True), (''std'', PyFloat (3 / 10))])]
     ''pixel_backdoor''
     = Inr [CornerPixelToWhite_obj
              \<lparr>p_backdoor = 1 / 10, corner = ''top-left'', target_class = PyInt 0,
               return_original = False\<rparr>]
   \<and> get_transforms Inr
       [(''pixel_backdoor'', [(''p_backdoor'', PyFloat (1 / 10))]),
        (''noise'', [(''enabled'', PyBool False), (''std'', PyFloat (3 / 10))]),
        (''noise_backdoor'', [(''enabled'', PyBool True), (''std'', PyFloat (3 / 10))])]
     = Inr [AddInfoDict,
            CornerPixelToWhite_obj
              \<lparr>p_backdoor = 1 / 10, corner = ''top-left'', target_class = PyInt 0,
               return_original = False\<rparr>,
            adapted_to_numpy,
            NoiseBackdoor_obj [(''std'', PyFloat (3 / 10))]]"
proof -
  let ?config = "[(''pixel_backdoor'', [(''p_backdoor'', PyFloat (1 / 10))]),
      (''noise'', [(''enabled'', PyBool False), (''std'', PyFloat (3 / 10))]),
      (''noise_backdoor'', [(''enabled'', PyBool True), (''std'', PyFloat (3 / 10))])]"
  have pil: "built_part CornerPixelToWhite_new CornerPixelToWhite_obj ?config ''pixel_backdoor''
      = Inr [CornerPixelToWhite_obj
              \<lparr>p_backdoor = 1 / 10, corner = ''top-left'', target_class = PyInt 0,
               return_original = False\<rparr>]"
    by (simp add: built_part_def enabled_kwargs_def CornerPixelToWhite_new_def
        CornerPixelToWhite_init_def)
  have ns: "built_part GaussianNoise_new GaussianNoise_obj ?config ''noise'' = Inr []"
    by (simp add: built_part_def enabled_kwargs_def)
  have nbs: "built_part Inr NoiseBackdoor_obj ?config ''noise_backdoor''
      = Inr [NoiseBackdoor_obj [(''std'', PyFloat (3 / 10))]]"
    by (simp add: built_part_def enabled_kwargs_def)
  from get_transforms_order [OF pil ns nbs] pil show ?thesis by simp
qed

text \<open>
  For the configuration \<^verbatim>\<open>{"pixel_backdoor": {}}\<close> the claim as stated fails:
  \<^verbatim>\<open>CornerPixelToWhite()\<close> lacks its required argument \<^verbatim>\<open>p_backdoor\<close>, and \<^verbatim>\<open>get_transforms\<close>
  raises \<^verbatim>\<open>TypeError\<close> instead of returning a list.
\<close>

theorem get_transforms_missing_argument_counterexample:
  "get_transforms Inr [(''pixel_backdoor'', [])] = Inl TypeError"
  by (simp add: get_transforms_def process_transform_def instantiate_def
      CornerPixelToWhite_new_def)

subsection \<open>fgsm\<close>








subsection \<open>AdversarialExampleDataset\<close>

text \<open>
  Claim C10, amended. Once the stored examples \<open>exs\<close> are loaded, the constructor raises
  \<^verbatim>\<open>ValueError\<close> exactly when the requested \<^verbatim>\<open>num_examples\<close> exceeds \<open>length exs\<close> (and
  raises nothing else). On a constructed dataset \<^verbatim>\<open>num_examples\<close> is the requested number
  (the number of stored examples when \<^verbatim>\<open>None\<close> was passed) and \<^verbatim>\<open>__len__\<close> returns it;
  \<^verbatim>\<open>len(dataset)\<close> equals \<^verbatim>\<open>num_examples\<close> when that is not negative, and raises
  \<^verbatim>\<open>ValueError\<close> when it is; \<^verbatim>\<open>__getitem__(idx)\<close> returns the stored example at position
  \<open>idx\<close> for \<open>0 \<le> idx < num_examples\<close>, and raises \<^verbatim>\<open>IndexError\<close> for every
  \<open>idx \<ge> num_examples\<close>.
\<close>

theorem adversarial_example_dataset_contract:
  assumes loaded: "load_examples first_load subprocess_run second_load = Inr exs"
  shows "(AdversarialExampleDataset_init first_load subprocess_run second_load run requested
            = Inl ValueError
          \<longleftrightarrow> (\<exists>n. requested = Some n \<and> int (length exs) < n))
       \<and> (\<forall>e. AdversarialExampleDataset_init first_load subprocess_run second_load run requested
            = Inl e \<longrightarrow> e = ValueError)
       \<and> (\<forall>ds. AdversarialExampleDataset_init first_load subprocess_run second_load run requested
            = Inr ds \<longrightarrow>
              examples ds = exs
            \<and> num_examples ds = (case requested of None \<Rightarrow> int (length exs) | Some n \<Rightarrow> n)
            \<and> dataset_dunder_len ds = num_examples ds
            \<and> (0 \<le> num_examples ds \<longrightarrow> dataset_len ds = Inr (num_examples ds))
            \<and> (num_examples ds < 0 \<longrightarrow> dataset_len ds = Inl ValueError)
            \<and> (\<forall>idx. 0 \<le> idx \<and> idx < num_examples ds \<longrightarrow>
                  dataset_getitem ds idx = Inr (exs ! nat idx))
            \<and> (\<forall>idx. idx \<ge> num_examples ds \<longrightarrow> dataset_getitem ds idx = Inl IndexError))"
proof -
  let ?n = "case requested of None \<Rightarrow> int (length exs) | Some k \<Rightarrow> k"
  have init: "AdversarialExampleDataset_init first_load subprocess_run second_load run requested
      = (if int (length exs) < ?n then Inl ValueError
         else Inr \<lparr>base_run = run, examples = exs, num_examples = ?n\<rparr>)"
    by (simp add: AdversarialExampleDataset_init_def loaded dataset_of_def Let_def)
  have raises: "int (length exs) < ?n \<longleftrightarrow> (\<exists>n. requested = Some n \<and> int (length exs) < n)"
    by (cases requested) simp_all
  have get_ok: "dataset_getitem \<lparr>base_run = run, examples = exs, num_examples = ?n\<rparr> idx
      = Inr (exs ! nat idx)"
    if "0 \<le> idx" "idx < ?n" "\<not> int (length exs) < ?n" for idx
    using that by (simp add: dataset_getitem_def py_index_def)
  have get_bad: "dataset_getitem \<lparr>base_run = run, examples = exs, num_examples = ?n\<rparr> idx
      = Inl IndexError" if "idx \<ge> ?n" for idx
    using that by (simp add: dataset_getitem_def)
  show ?thesis
    unfolding init using raises get_ok get_bad
    by (auto simp: dataset_len_def dataset_dunder_len_def)
qed

theorem adversarial_example_dataset_contract_witness:
  "load_examples (Inl FileNotFoundError) None (Inr [10, 20, 30 :: nat]) = Inr [10, 20, 30]
   \<and> AdversarialExampleDataset_init (Inl FileNotFoundError) None (Inr [10, 20, 30 :: nat])
        ''run'' (Some 4) = Inl ValueError
   \<and> (\<exists>ds. AdversarialExampleDataset_init (Inl FileNotFoundError) None (Inr [10, 20, 30 :: nat])
        ''run'' (Some 2) = Inr ds
        \<and> dataset_len ds = Inr 2
        \<and> dataset_getitem ds 1 = Inr 20
        \<and> dataset_getitem ds 2 = Inl IndexError)"
proof -
  have l: "load_examples (Inl FileNotFoundError) None (Inr [10, 20, 30 :: nat]) = Inr [10, 20, 30]"
    by (simp add: load_examples_def)
  have ok: "AdversarialExampleDataset_init (Inl FileNotFoundError) None (Inr [10, 20, 30 :: nat])
        ''run'' (Some 2) = Inr \<lparr>base_run = ''run'', examples = [10, 20, 30], num_examples = 2\<rparr>"
    by (simp add: AdversarialExampleDataset_init_def load_examples_def dataset_of_def)
  show ?thesis
    using adversarial_example_dataset_contract [OF l, of "''run''" "Some 4"]
      adversarial_example_dataset_contract [OF l, of "''run''" "Some 2"] l ok
    by simp
qed

text \<open>
  For \<^verbatim>\<open>num_examples = -1\<close> the claim as stated fails: the constructor succeeds, since
  \<open>-1\<close> does not exceed the number of stored examples, and \<^verbatim>\<open>len(dataset)\<close> raises
  \<^verbatim>\<open>ValueError\<close> instead of returning \<open>-1\<close>.
\<close>

theorem adversarial_example_dataset_negative_counterexample:
  "AdversarialExampleDataset_init (Inr [10, 20, 30 :: nat]) None (Inr []) ''run'' (Some (- 1))
     = Inr \<lparr>base_run = ''run'', examples = [10, 20, 30], num_examples = - 1\<rparr>
   \<and> dataset_len \<lparr>base_run = ''run'', examples = [10, 20, 30 :: nat], num_examples = - 1\<rparr>
     = Inl ValueError"
  by (simp add: AdversarialExampleDataset_init_def load_examples_def dataset_of_def
      dataset_len_def dataset_dunder_len_def)

subsection \<open>GaussianNoise\<close>

text \<open>
  Claim C7, amended. For every \<^verbatim>\<open>GaussianNoise\<close> whose \<^verbatim>\<open>std\<close> is a non-negative number and
  every sample \<open>(img, target, info)\<close>, \<^verbatim>\<open>__call__\<close> returns a triple whose image is the input
  image plus a noise array of the same shape (\<open>std\<close> times the generator's draws), with the
  target and the info dict unchanged.
\<close>

theorem gaussian_noise_call:
  assumes number: "num_of (std self) = Some s" and nonneg: "0 \<le> s"
  shows "\<exists>noise_array.
      nd_shape noise_array = nd_shape img
      \<and> nd_data noise_array = map (\<lambda>k. s * z k) [0..<prod_list (nd_shape img)]
      \<and> GaussianNoise_call self convert z (img, target, info)
          = Inr (nd_add img noise_array, target, info)"
  using assms
  by (intro exI [of _ "\<lparr>nd_shape = nd_shape img,
        nd_data = map (\<lambda>k. s * z k) [0..<prod_list (nd_shape img)]\<rparr>"])
    (simp add: GaussianNoise_call_def np_random_normal_def np_scale_def)

theorem gaussian_noise_call_witness:
  "num_of (std (GaussianNoise_init (PyFloat (1 / 2)))) = Some (1 / 2) \<and> (0 :: real) \<le> 1 / 2
   \<and> GaussianNoise_call (GaussianNoise_init (PyFloat (1 / 2))) (\<lambda>v. Inl ValueError) real
        (\<lparr>nd_shape = [2], nd_data = [1, 2]\<rparr>, PyInt 3, ''info'')
      = Inr (\<lparr>nd_shape = [2], nd_data = [1, 5 / 2]\<rparr>, PyInt 3, ''info'')"
proof -
  have number: "num_of (std (GaussianNoise_init (PyFloat (1 / 2)))) = Some (1 / 2)"
    by (simp add: GaussianNoise_init_def)
  have nonneg: "(0 :: real) \<le> 1 / 2" by simp
  have upt: "[0..<2] = [0, 1]" by (simp add: upt_rec)
  from gaussian_noise_call [OF number nonneg, of "\<lparr>nd_shape = [2], nd_data = [1, 2]\<rparr>" real
      "\<lambda>v. Inl ValueError" "PyInt 3" "''info''"]
  show ?thesis using number by (auto simp: nd_add_def upt)
qed

text \<open>
  With a negative \<^verbatim>\<open>std\<close>, which the constructor accepts, \<^verbatim>\<open>np.random.normal\<close> raises
  \<^verbatim>\<open>ValueError\<close> and no triple is returned.
\<close>

theorem gaussian_noise_negative_std_counterexample:
  "GaussianNoise_call (GaussianNoise_init (PyFloat (- 1))) (\<lambda>v. Inl ValueError) (\<lambda>k. 0)
     (\<lparr>nd_shape = [2], nd_data = [1, 2]\<rparr>, PyInt 3, ''info'') = Inl ValueError"
  by (simp add: GaussianNoise_call_def GaussianNoise_init_def np_random_normal_def np_scale_def)

subsection \<open>CornerPixelToWhite\<close>

lemma round_half_even_int: "round_half_even (of_int k) = k"
  by (simp add: round_half_even_def)

lemma floor_log2_eq:
  assumes "2 powr of_int k \<le> x" "x < 2 powr (of_int k + 1)"
  shows "\<lfloor>log 2 x\<rfloor> = k"
proof -
  have pos: "0 < x" using assms(1) by (smt (verit) powr_gt_zero)
  have "of_int k \<le> log 2 x" using assms(1) pos by (simp add: le_log_iff)
  moreover have "log 2 x < of_int k + 1" using assms(2) pos by (simp add: log_less_iff)
  ultimately show ?thesis by (simp add: floor_eq_iff)
qed

lemma to_float32_eval:
  assumes "x \<noteq> 0" and "\<lfloor>log 2 \<bar>x\<bar>\<rfloor> = k" and "max k (- 126) - 23 = e"
    and "(2 :: real) powr of_int e = q" and "round_half_even (x / q) = m"
  shows "to_float32 x = of_int m * q"
  using assms by (simp add: to_float32_def Let_def)

lemma powr_neg_power: "(2 :: real) powr of_int (- int n) = 1 / 2 ^ n"
  by (simp add: powr_minus_divide powr_realpow)

lemma to_float32_one: "to_float32 1 = 1"
proof -
  have e: "\<lfloor>log 2 \<bar>1 :: real\<bar>\<rfloor> = 0" by simp
  have p: "(2 :: real) powr of_int (- 23) = 1 / 2 ^ 23"
    using powr_neg_power [of 23] by simp
  have "(1 :: real) / (1 / 2 ^ 23) = of_int (2 ^ 23)" by simp
  then have r: "round_half_even ((1 :: real) / (1 / 2 ^ 23)) = 2 ^ 23"
    by (simp only: round_half_even_int)
  have "to_float32 1 = of_int (2 ^ 23) * (1 / 2 ^ 23)"
    by (rule to_float32_eval [OF _ e _ p r]) simp_all
  then show ?thesis by simp
qed

lemma to_float32_half: "to_float32 (1 / 2) = 1 / 2"
proof -
  have e: "\<lfloor>log 2 \<bar>1 / 2 :: real\<bar>\<rfloor> = - 1"
    by (rule floor_log2_eq) (simp_all add: powr_minus_divide)
  have p: "(2 :: real) powr of_int (- 24) = 1 / 2 ^ 24"
    using powr_neg_power [of 24] by simp
  have "(1 / 2 :: real) / (1 / 2 ^ 24) = of_int (2 ^ 23)" by simp
  then have r: "round_half_even ((1 / 2 :: real) / (1 / 2 ^ 24)) = 2 ^ 23"
    by (simp only: round_half_even_int)
  have "to_float32 (1 / 2) = of_int (2 ^ 23) * (1 / 2 ^ 24)"
    by (rule to_float32_eval [OF _ e _ p r]) simp_all
  then show ?thesis by simp
qed

lemma to_float32_below_half:
  "to_float32 (1 / 2 - 1 / 10 ^ 9) = 1 / 2" "to_float32 (499999999 / 1000000000) = 1 / 2"
proof -
  let ?x = "1 / 2 - 1 / 10 ^ 9 :: real"
  have e: "\<lfloor>log 2 \<bar>?x\<bar>\<rfloor> = - 2"
    by (rule floor_log2_eq) (simp_all add: powr_minus_divide)
  have p: "(2 :: real) powr of_int (- 25) = 1 / 2 ^ 25"
    using powr_neg_power [of 25] by simp
  have fl: "\<lfloor>?x / (1 / 2 ^ 25)\<rfloor> = 16777215"
    by (simp add: floor_eq_iff)
  have r: "round_half_even (?x / (1 / 2 ^ 25)) = 2 ^ 24"
    unfolding round_half_even_def Let_def fl by simp
  have "to_float32 ?x = of_int (2 ^ 24) * (1 / 2 ^ 25)"
    by (rule to_float32_eval [OF _ e _ p r]) simp_all
  then show "to_float32 ?x = 1 / 2" by simp
  then show "to_float32 (499999999 / 1000000000) = 1 / 2" by simp
qed

lemma init_fields:
  assumes "CornerPixelToWhite_init p c tc ro = Inr self"
  shows "corner self \<in> {''top-left'', ''top-right'', ''bottom-left'', ''bottom-right''}"
    and "target_class self = tc"
    and "num_of p = Some (p_backdoor self)"
    and "0 \<le> p_backdoor self" and "p_backdoor self \<le> 1"
    and "return_original self = truthy ro"
  using assms
  by (auto simp: CornerPixelToWhite_init_def split: option.splits if_splits py_value.splits)

lemma locate_corner:
  assumes "0 < img_width img" "0 < img_height img"
    and "c \<in> {''top-left'', ''top-right'', ''bottom-left'', ''bottom-right''}"
  shows "\<exists>k. locate img (corner_position c img) = Inr k \<and> k < img_width img * img_height img"
proof -
  let ?w = "img_width img" and ?h = "img_height img"
  have last_row: "(?h - 1) * ?w + (?w - 1) < ?w * ?h"
  proof -
    have "(?h - 1) * ?w + (?w - 1) < (?h - 1) * ?w + ?w" using assms(1) by simp
    also have "\<dots> = ?h * ?w" using assms(2) by (simp add: algebra_simps mult_eq_if)
    finally show ?thesis by (simp add: mult.commute)
  qed
  have "?w \<le> ?w * ?h" using assms(2) by (cases "?h") simp_all
  then have first_row: "?w - 1 < ?w * ?h" using assms(1) by linarith
  have col: "(?h - 1) * ?w < ?w * ?h" using last_row by linarith
  have pos: "0 < ?w * ?h" using assms(1,2) by simp
  consider "c = ''top-left''" | "c = ''top-right''" | "c = ''bottom-left''" | "c = ''bottom-right''"
    using assms(3) by auto
  then show ?thesis
  proof cases
    case 1 then show ?thesis using assms(1,2) pos
      by (simp add: locate_def corner_position_def)
  next
    case 2 then show ?thesis using assms(1,2) first_row
      by (simp add: locate_def corner_position_def nat_diff_distrib)
  next
    case 3 then show ?thesis using assms(1,2) col
      by (simp add: locate_def corner_position_def nat_diff_distrib)
  next
    case 4 then show ?thesis using assms(1,2) last_row
      by (simp add: locate_def corner_position_def nat_diff_distrib)
  qed
qed

lemma call_backdoor:
  assumes "c \<in> {''top-left'', ''top-right'', ''bottom-left'', ''bottom-right''}"
    and "corner self = c" and "r \<le> to_float32 (p_backdoor self)"
  shows "CornerPixelToWhite_call self r (img, target, info) =
     (case putpixel img (corner_position c img) 255 of
        Inl e \<Rightarrow> Inl e
      | Inr img' \<Rightarrow>
          Inr (img', target_class self,
               if return_original self
               then info(''backdoored'' \<mapsto> InfoValue (PyBool True), ''original_img'' \<mapsto> InfoImage img)
               else info(''backdoored'' \<mapsto> InfoValue (PyBool True))))"
  using assms
  by (auto simp: CornerPixelToWhite_call_def corner_position_def Let_def split: sum.splits)

lemma locate_data_update: "locate (img\<lparr>img_data := d\<rparr>) xy = locate img xy"
  by (cases xy) (simp add: locate_def Let_def)

lemma getpixel_putpixel:
  assumes "locate img xy = Inr k" "k < length (img_data img)"
  shows "\<exists>img'. putpixel img xy v = Inr img' \<and> getpixel img' xy = Inr v
     \<and> img' = img\<lparr>img_data := (img_data img)[k := v]\<rparr>"
  using assms by (simp add: putpixel_def getpixel_def locate_data_update)

text \<open>
  Claim C2, amended. For every transform that the constructor accepts, every sample
  \<open>(img, target, info)\<close> whose image has at least one pixel, and every draw \<open>r\<close>, with
  \<^verbatim>\<open>p_backdoor\<close> rounded to float32 in the comparison: if \<open>r \<le> p_backdoor\<close>, \<^verbatim>\<open>__call__\<close>
  returns the image with the pixel of the configured corner set to white (value 255) and
  no other pixel changed, the fixed \<^verbatim>\<open>target_class\<close> in place of the target, and the info
  dict with \<^verbatim>\<open>backdoored\<close> set to \<^verbatim>\<open>True\<close>; if \<open>r > p_backdoor\<close>, it returns the image and
  the target unchanged and the info dict with \<^verbatim>\<open>backdoored\<close> set to \<^verbatim>\<open>False\<close>. In both
  cases the info dict is otherwise unchanged, but for the entry \<^verbatim>\<open>original_img\<close> that holds
  the image as it came when \<^verbatim>\<open>return_original\<close> is set. The third hypothesis says that the
  record is an image: it has one entry per pixel.
\<close>

theorem corner_pixel_to_white_call:
  assumes made: "CornerPixelToWhite_init p c tc ro = Inr self"
    and size: "0 < img_width img" "0 < img_height img"
    and raster: "length (img_data img) = img_width img * img_height img"
  shows "\<exists>k. locate img (corner_position (corner self) img) = Inr k
       \<and> k < length (img_data img)
       \<and> (r \<le> to_float32 (p_backdoor self) \<longrightarrow>
             CornerPixelToWhite_call self r (img, target, info)
               = Inr (img\<lparr>img_data := (img_data img)[k := 255]\<rparr>, tc,
                      if truthy ro
                      then info(''backdoored'' \<mapsto> InfoValue (PyBool True),
                                ''original_img'' \<mapsto> InfoImage img)
                      else info(''backdoored'' \<mapsto> InfoValue (PyBool True)))
             \<and> getpixel (img\<lparr>img_data := (img_data img)[k := 255]\<rparr>)
                   (corner_position (corner self) img) = Inr 255)
       \<and> (r > to_float32 (p_backdoor self) \<longrightarrow>
             CornerPixelToWhite_call self r (img, target, info)
               = Inr (img, target,
                      if truthy ro
                      then info(''backdoored'' \<mapsto> InfoValue (PyBool False),
                                ''original_img'' \<mapsto> InfoImage img)
                      else info(''backdoored'' \<mapsto> InfoValue (PyBool False))))"
proof -
  note fields = init_fields [OF made]
  from locate_corner [OF size fields(1)] obtain k
    where k: "locate img (corner_position (corner self) img) = Inr k"
      "k < img_width img * img_height img"
    by blast
  have inside: "k < length (img_data img)" using k(2) raster by simp
  from getpixel_putpixel [OF k(1) inside, of 255]
  have painted: "putpixel img (corner_position (corner self) img) 255
        = Inr (img\<lparr>img_data := (img_data img)[k := 255]\<rparr>)"
    and white: "getpixel (img\<lparr>img_data := (img_data img)[k := 255]\<rparr>)
        (corner_position (corner self) img) = Inr 255"
    by auto
  have backdoor: "CornerPixelToWhite_call self r (img, target, info)
               = Inr (img\<lparr>img_data := (img_data img)[k := 255]\<rparr>, tc,
                      if truthy ro
                      then info(''backdoored'' \<mapsto> InfoValue (PyBool True),
                                ''original_img'' \<mapsto> InfoImage img)
                      else info(''backdoored'' \<mapsto> InfoValue (PyBool True)))"
    if "r \<le> to_float32 (p_backdoor self)"
    using call_backdoor [OF fields(1) refl that, of img target info] painted fields(2,6)
    by simp
  have clean: "CornerPixelToWhite_call self r (img, target, info)
               = Inr (img, target,
                      if truthy ro
                      then info(''backdoored'' \<mapsto> InfoValue (PyBool False),
                                ''original_img'' \<mapsto> InfoImage img)
                      else info(''backdoored'' \<mapsto> InfoValue (PyBool False)))"
    if "r > to_float32 (p_backdoor self)"
    using that fields(6) by (simp add: CornerPixelToWhite_call_def Let_def)
  show ?thesis
    using k(1) inside backdoor white clean by blast
qed

theorem corner_pixel_to_white_call_witness:
  "CornerPixelToWhite_init (PyFloat (1 / 2)) (PyStr ''top-right'') (PyInt 7) (PyBool False)
     = Inr \<lparr>p_backdoor = 1 / 2, corner = ''top-right'', target_class = PyInt 7,
            return_original = False\<rparr>
   \<and> 0 < img_width \<lparr>img_width = 2, img_height = 2, img_data = [0, 0, 0, 0]\<rparr>
   \<and> 0 < img_height \<lparr>img_width = 2, img_height = 2, img_data = [0, 0, 0, 0]\<rparr>
   \<and> (1 / 4 :: real) \<le> to_float32 (1 / 2) \<and> to_float32 (1 / 2) < (3 / 4 :: real)
   \<and> CornerPixelToWhite_call
        \<lparr>p_backdoor = 1 / 2, corner = ''top-right'', target_class = PyInt 7,
         return_original = False\<rparr>
        (1 / 4) (\<lparr>img_width = 2, img_height = 2, img_data = [0, 0, 0, 0]\<rparr>, PyInt 3, Map.empty)
      = Inr (\<lparr>img_width = 2, img_height = 2, img_data = [0, 255, 0, 0]\<rparr>, PyInt 7,
             [''backdoored'' \<mapsto> InfoValue (PyBool True)])
   \<and> CornerPixelToWhite_call
        \<lparr>p_backdoor = 1 / 2, corner = ''top-right'', target_class = PyInt 7,
         return_original = False\<rparr>
        (3 / 4) (\<lparr>img_width = 2, img_height = 2, img_data = [0, 0, 0, 0]\<rparr>, PyInt 3, Map.empty)
      = Inr (\<lparr>img_width = 2, img_height = 2, img_data = [0, 0, 0, 0]\<rparr>, PyInt 3,
             [''backdoored'' \<mapsto> InfoValue (PyBool False)])"
proof -
  let ?self = "\<lparr>p_backdoor = 1 / 2, corner = ''top-right'', target_class = PyInt 7,
            return_original = False\<rparr>"
  let ?img = "\<lparr>img_width = 2, img_height = 2, img_data = [0, 0, 0, 0]\<rparr>"
  have made: "CornerPixelToWhite_init (PyFloat (1 / 2)) (PyStr ''top-right'') (PyInt 7)
      (PyBool False) = Inr ?self"
    by (simp add: CornerPixelToWhite_init_def)
  have size: "0 < img_width ?img" "0 < img_height ?img"
    and raster: "length (img_data ?img) = img_width ?img * img_height ?img"
    by simp_all
  have where_it_is: "locate ?img (corner_position (corner ?self) ?img) = Inr k \<longleftrightarrow> k = 1" for k
    by (auto simp: locate_def corner_position_def)
  have low: "(1 / 4 :: real) \<le> to_float32 (p_backdoor ?self)"
    and high: "to_float32 (p_backdoor ?self) < (3 / 4 :: real)"
    by (simp_all add: to_float32_half)
  from corner_pixel_to_white_call [OF made size raster, of "1 / 4" "PyInt 3" Map.empty] low
  obtain k where k: "locate ?img (corner_position (corner ?self) ?img) = Inr k"
    and call: "CornerPixelToWhite_call ?self (1 / 4) (?img, PyInt 3, Map.empty)
      = Inr (?img\<lparr>img_data := (img_data ?img)[k := 255]\<rparr>, PyInt 7,
             if truthy (PyBool False)
             then [''backdoored'' \<mapsto> InfoValue (PyBool True), ''original_img'' \<mapsto> InfoImage ?img]
             else [''backdoored'' \<mapsto> InfoValue (PyBool True)])"
    by blast
  from k have "k = 1" by (simp only: where_it_is)
  with call have painted: "CornerPixelToWhite_call ?self (1 / 4) (?img, PyInt 3, Map.empty)
      = Inr (\<lparr>img_width = 2, img_height = 2, img_data = [0, 255, 0, 0]\<rparr>, PyInt 7,
             [''backdoored'' \<mapsto> InfoValue (PyBool True)])"
    by simp
  from corner_pixel_to_white_call [OF made size raster, of "3 / 4" "PyInt 3" Map.empty] high
  have clean: "CornerPixelToWhite_call ?self (3 / 4) (?img, PyInt 3, Map.empty)
      = Inr (?img, PyInt 3, [''backdoored'' \<mapsto> InfoValue (PyBool False)])"
    by auto
  show ?thesis using made painted clean low high by simp
qed

text \<open>
  The claim as stated fails in two ways. On an image without pixels, with
  \<open>r = 0 \<le> p_backdoor = 1\<close>, the call \<^verbatim>\<open>putpixel((0, 0), 255)\<close> raises \<^verbatim>\<open>IndexError\<close> and
  nothing is returned. And with \<open>p_backdoor = 0.5 - 10\<^sup>-\<^sup>9\<close>, which is \<open>0.5\<close> in float32,
  the draw \<open>r = 0.5 > p_backdoor\<close> does not leave the sample unchanged: the pixel is set
  and the target replaced.
\<close>

theorem corner_pixel_to_white_counterexample:
  "CornerPixelToWhite_init (PyFloat 1) (PyStr ''top-left'') (PyInt 0) (PyBool False)
     = Inr \<lparr>p_backdoor = 1, corner = ''top-left'', target_class = PyInt 0,
            return_original = False\<rparr>
   \<and> (0 :: real) \<le> p_backdoor \<lparr>p_backdoor = 1, corner = ''top-left'', target_class = PyInt 0,
            return_original = False\<rparr>
   \<and> CornerPixelToWhite_call
        \<lparr>p_backdoor = 1, corner = ''top-left'', target_class = PyInt 0, return_original = False\<rparr>
        0 (\<lparr>img_width = 0, img_height = 0, img_data = []\<rparr>, PyInt 5, Map.empty)
      = Inl IndexError
   \<and> CornerPixelToWhite_init (PyFloat (1 / 2 - 1 / 10 ^ 9)) (PyStr ''top-left'') (PyInt 0)
        (PyBool False)
     = Inr \<lparr>p_backdoor = 1 / 2 - 1 / 10 ^ 9, corner = ''top-left'', target_class = PyInt 0,
            return_original = False\<rparr>
   \<and> (1 / 2 :: real) > p_backdoor \<lparr>p_backdoor = 1 / 2 - 1 / 10 ^ 9, corner = ''top-left'',
            target_class = PyInt 0, return_original = False\<rparr>
   \<and> CornerPixelToWhite_call
        \<lparr>p_backdoor = 1 / 2 - 1 / 10 ^ 9, corner = ''top-left'', target_class = PyInt 0,
         return_original = False\<rparr>
        (1 / 2) (\<lparr>img_width = 1, img_height = 1, img_data = [0]\<rparr>, PyInt 5, Map.empty)
      = Inr (\<lparr>img_width = 1, img_height = 1, img_data = [255]\<rparr>, PyInt 0,
             [''backdoored'' \<mapsto> InfoValue (PyBool True)])"
  by (simp add: CornerPixelToWhite_init_def CornerPixelToWhite_call_def putpixel_def locate_def
      to_float32_one to_float32_below_half)

subsection \<open>ClassificationTrainer\<close>

lemma sum_indicators:
  "sum_list (map ((\<lambda>c. if c then 1 else 0 :: real) \<circ> (\<lambda>(k, l). int k = l)) ps)
     = real (length (filter (\<lambda>(k, l). int k = l) ps))"
  by (induction ps) auto

lemma losses_fit:
  assumes "shapes_fit (get_apply_fn cls state ps images) labels num_classes"
  shows "losses num_classes cls ps state (images, labels, infos)
     = Inr (jnp_mean (cross_entropy_values (get_apply_fn cls state ps images)
                        (one_hot labels num_classes)),
            fraction_correct (get_apply_fn cls state ps images) labels)"
  using assms
  by (simp add: losses_def shapes_fit_def optax_softmax_cross_entropy_def argmax_equals_def
      one_hot_def fraction_correct_def jnp_mean_def sum_indicators Let_def)

lemma equal_shapes_cross_entropy:
  assumes "length (logit_rows logits) = length labels"
    and "\<forall>z \<in> set (logit_rows logits). length z = n"
  shows "cross_entropy_values logits (one_hot labels n)
     = softmax_cross_entropy (logit_rows logits) (one_hot labels n)"
proof -
  let ?rows = "logit_rows logits" and ?onehot = "one_hot labels n"
  have rows: "length (map log_softmax ?rows) = length ?onehot"
    using assms(1) by (simp add: one_hot_def)
  have pairs: "broadcast_pairs (map log_softmax ?rows) ?onehot
      = map (\<lambda>(z, y). (log_softmax z, y)) (zip ?rows ?onehot)"
    using rows by (simp add: broadcast_pairs_def zip_map1)
  have entry: "- sum_list (map (\<lambda>(a, b). a * b) (broadcast_pairs y (log_softmax z)))
      = - sum_list (map2 (*) y (log_softmax z))"
    if "(z, y) \<in> set (zip ?rows ?onehot)" for z y
  proof -
    from that have "z \<in> set ?rows" and "y \<in> set ?onehot"
      by (auto dest: set_zip_leftD set_zip_rightD)
    then have "length y = length (log_softmax z)"
      using assms(2) by (auto simp: one_hot_def log_softmax_def)
    then show ?thesis by (simp add: broadcast_pairs_def)
  qed
  have "cross_entropy_values logits ?onehot
      = map (\<lambda>(z, y). - sum_list (map (\<lambda>(a, b). a * b) (broadcast_pairs y (log_softmax z))))
          (zip ?rows ?onehot)"
    unfolding cross_entropy_values_def pairs by (simp add: split_beta comp_def)
  also have "\<dots> = map (\<lambda>(z, y). - sum_list (map2 (*) y (log_softmax z))) (zip ?rows ?onehot)"
    by (rule map_cong [OF refl]) (use entry in auto)
  also have "\<dots> = softmax_cross_entropy ?rows ?onehot"
    by (simp add: softmax_cross_entropy_def)
  finally show ?thesis .
qed

lemma equal_shapes_fraction:
  assumes "length (logit_rows logits) = length labels"
  shows "fraction_correct logits labels
     = real (length (filter (\<lambda>(z, l). int (argmax z) = l) (zip (logit_rows logits) labels)))
         / real (length labels)"
proof -
  have "broadcast_pairs (map argmax (logit_rows logits)) labels
      = map (\<lambda>(z, l). (argmax z, l)) (zip (logit_rows logits) labels)"
    using assms by (simp add: broadcast_pairs_def zip_map1)
  then show ?thesis
    using assms by (simp add: fraction_correct_def filter_map comp_def case_prod_unfold)
qed

lemma is_gradient_flat_cong:
  assumes "\<And>ps. length ps = length x \<Longrightarrow> f ps = h ps"
  shows "is_gradient_flat f x g \<longleftrightarrow> is_gradient_flat h x g"
proof -
  have "(\<lambda>t. f (x[i := t])) = (\<lambda>t. h (x[i := t]))" for i
    using assms by (simp add: fun_eq_iff)
  then show ?thesis by (simp add: is_gradient_flat_def)
qed

text \<open>
  Claim C6, amended. For every training state and batch for which the logits of
  \<^verbatim>\<open>state.apply_fn\<close> fit the labels (for parameters of the state's shape the logits have
  \<^verbatim>\<open>num_classes\<close> columns and one row per label, or sizes that broadcast with these, and
  at least one column), and whenever the automatic differentiation returns the value and a
  gradient of the loss at the parameters of the state, \<^verbatim>\<open>train_step\<close> returns the state that
  \<^verbatim>\<open>apply_gradients\<close> (the optimizer) makes from a gradient \<open>g\<close> of the mean softmax
  cross-entropy loss with respect to the parameters, together with the metrics \<^verbatim>\<open>loss\<close> and
  \<^verbatim>\<open>accuracy\<close> computed with the parameters of the state before the update; the accuracy is
  the fraction of the examples whose argmax prediction equals the label. The last part of
  the statement spells both metrics out for logits and labels of the same shape.
\<close>

theorem train_step_update_and_metrics:
  assumes autodiff_ok:
    "differentiates_aux value_and_grad_aux
       (\<lambda>ps. losses num_classes cls ps state (images, labels, infos)) (get_params cls state)"
    and fit: "\<forall>ps. length ps = length (get_params cls state)
                \<longrightarrow> shapes_fit (get_apply_fn cls state ps images) labels num_classes"
  shows "\<exists>g. is_gradient_flat
             (\<lambda>ps. jnp_mean (cross_entropy_values (get_apply_fn cls state ps images)
                      (one_hot labels num_classes)))
             (get_params cls state) g
       \<and> train_step value_and_grad_aux num_classes cls state (images, labels, infos)
           = Inr (apply_gradients cls state g,
                  [''loss'' \<mapsto> jnp_mean (cross_entropy_values
                                    (get_apply_fn cls state (get_params cls state) images)
                                    (one_hot labels num_classes)),
                   ''accuracy'' \<mapsto> fraction_correct
                                    (get_apply_fn cls state (get_params cls state) images) labels])
       \<and> (length (logit_rows (get_apply_fn cls state (get_params cls state) images))
              = length labels
            \<and> (\<forall>z \<in> set (logit_rows (get_apply_fn cls state (get_params cls state) images)).
                  length z = num_classes)
            \<longrightarrow> cross_entropy_values (get_apply_fn cls state (get_params cls state) images)
                    (one_hot labels num_classes)
                  = softmax_cross_entropy
                      (logit_rows (get_apply_fn cls state (get_params cls state) images))
                      (one_hot labels num_classes)
                \<and> fraction_correct (get_apply_fn cls state (get_params cls state) images) labels
                  = real (length (filter (\<lambda>(z, l). int (argmax z) = l)
                        (zip (logit_rows (get_apply_fn cls state (get_params cls state) images))
                           labels)))
                      / real (length labels))"
proof -
  let ?f = "\<lambda>ps. losses num_classes cls ps state (images, labels, infos)"
  let ?x = "get_params cls state"
  let ?loss = "\<lambda>ps. jnp_mean (cross_entropy_values (get_apply_fn cls state ps images)
                      (one_hot labels num_classes))"
  have computed:
    "?f ps = Inr (?loss ps, fraction_correct (get_apply_fn cls state ps images) labels)"
    if "length ps = length ?x" for ps
    using fit that by (simp add: losses_fit)
  have loss_eq: "is_gradient_flat (\<lambda>ps. loss_of (?f ps)) ?x g \<longleftrightarrow> is_gradient_flat ?loss ?x g"
    for g
    by (rule is_gradient_flat_cong) (simp add: computed loss_of_def)
  have here: "?f ?x = Inr (?loss ?x, fraction_correct (get_apply_fn cls state ?x images) labels)"
    by (rule computed) simp
  from autodiff_ok obtain g where
    traced: "value_and_grad_aux ?f ?x
        = Inr ((?loss ?x, fraction_correct (get_apply_fn cls state ?x images) labels), g)"
    and grad: "is_gradient_flat (\<lambda>ps. loss_of (?f ps)) ?x g"
    unfolding differentiates_aux_def here by (auto split: sum.splits)
  have step: "train_step value_and_grad_aux num_classes cls state (images, labels, infos)
      = Inr (apply_gradients cls state g,
             [''loss'' \<mapsto> ?loss ?x,
              ''accuracy'' \<mapsto> fraction_correct (get_apply_fn cls state ?x images) labels])"
    unfolding train_step_def Let_def traced by (simp add: here)
  show ?thesis
    apply (rule exI [of _ g])
    using grad step equal_shapes_cross_entropy equal_shapes_fraction
    unfolding loss_eq by blast
qed

lemmas losses_eval = losses_def bias_only_def one_hot_def optax_softmax_cross_entropy_def
  cross_entropy_values_def argmax_equals_def broadcast_pairs_def compatible_def
  log_softmax_def jnp_mean_def upt_rec loss_of_def

lemma bias_loss_first:
  "loss_of (losses 2 bias_only [t, 0] state ([[7]], [0], ())) = ln (exp t + 1) - t"
  by (simp add: losses_eval)

lemma bias_loss_second:
  "loss_of (losses 2 bias_only [0, t] state ([[7]], [0], ())) = ln (1 + exp t)"
  by (simp add: losses_eval)

lemma bias_loss_gradient:
  "is_gradient_flat (\<lambda>ps. loss_of (losses 2 bias_only ps [0, 0] ([[7]], [0], ()))) [0, 0]
     [- 1 / 2, 1 / 2]"
proof -
  have d0: "((\<lambda>t. ln (exp t + 1) - t) has_real_derivative - 1 / 2) (at 0)"
    by (auto intro!: derivative_eq_intros simp: add_pos_pos)
  have d1: "((\<lambda>t. ln (1 + exp t)) has_real_derivative 1 / 2) (at 0)"
    by (auto intro!: derivative_eq_intros simp: add_pos_pos)
  have "\<forall>i < length [0, 0 :: real].
      ((\<lambda>t. loss_of (losses 2 bias_only ([0, 0][i := t]) [0, 0] ([[7]], [0], ())))
         has_real_derivative [- 1 / 2, 1 / 2] ! i) (at ([0, 0] ! i))"
  proof (intro allI impI)
    fix i assume "i < length [0, 0 :: real]"
    then have "i = 0 \<or> i = 1" by auto
    then show "((\<lambda>t. loss_of (losses 2 bias_only ([0, 0][i := t]) [0, 0] ([[7]], [0], ())))
         has_real_derivative [- 1 / 2, 1 / 2] ! i) (at ([0, 0] ! i))"
      using d0 d1 by (auto simp: bias_loss_first bias_loss_second)
  qed
  then show ?thesis by (simp add: is_gradient_flat_def)
qed

theorem train_step_update_and_metrics_witness:
  "differentiates_aux bias_gradient
     (\<lambda>ps. losses 2 bias_only ps [0, 0] ([[7]], [0], ())) (get_params bias_only [0, 0])
   \<and> shapes_fit (get_apply_fn bias_only [0, 0] [0, 0] [[7]]) [0] 2
   \<and> train_step bias_gradient 2 bias_only [0, 0] ([[7]], [0], ())
       = Inr ([1 / 2, - 1 / 2], [''loss'' \<mapsto> ln 2, ''accuracy'' \<mapsto> 1])"
proof -
  have params: "get_params bias_only [0, 0] = [0, 0]" by (simp add: bias_only_def)
  have here: "losses 2 bias_only [0, 0] [0, 0] ([[7]], [0], ()) = Inr (ln 2, 1)"
    by (simp add: losses_eval)
  have ok: "differentiates_aux bias_gradient
     (\<lambda>ps. losses 2 bias_only ps [0, 0] ([[7]], [0], ())) (get_params bias_only [0, 0])"
    unfolding params using bias_loss_gradient
    by (simp add: differentiates_aux_def bias_gradient_def here)
  have fit: "\<forall>ps. length ps = length (get_params bias_only [0, 0])
      \<longrightarrow> shapes_fit (get_apply_fn bias_only [0, 0] ps [[7]]) [0] 2"
    by (simp add: bias_only_def shapes_fit_def compatible_def)
  from train_step_update_and_metrics [OF ok fit] obtain g where
    g: "train_step bias_gradient 2 bias_only [0, 0] ([[7]], [0], ())
        = Inr (apply_gradients bias_only [0, 0] g,
           [''loss'' \<mapsto> jnp_mean (cross_entropy_values
                                (get_apply_fn bias_only [0, 0] (get_params bias_only [0, 0]) [[7]])
                                (one_hot [0] 2)),
            ''accuracy'' \<mapsto> fraction_correct
                                (get_apply_fn bias_only [0, 0] (get_params bias_only [0, 0]) [[7]])
                                [0]])"
    by blast
  have direct: "train_step bias_gradient 2 bias_only [0, 0] ([[7]], [0], ())
      = Inr ([1 / 2, - 1 / 2], [''loss'' \<mapsto> ln 2, ''accuracy'' \<mapsto> 1])"
    unfolding train_step_def Let_def params bias_gradient_def here
    by (simp add: bias_only_def)
  have "shapes_fit (get_apply_fn bias_only [0, 0] [0, 0] [[7]]) [0] 2"
    by (simp add: bias_only_def shapes_fit_def compatible_def)
  then show ?thesis using ok g direct by simp
qed

text \<open>
  For \<^verbatim>\<open>num_classes = 3\<close> and a model with two logits the claim as stated fails: the
  product of the one-hot labels and the log-probabilities cannot be broadcast, and
  \<^verbatim>\<open>train_step\<close> raises \<^verbatim>\<open>TypeError\<close> instead of returning a state and metrics.
\<close>

theorem train_step_shape_counterexample:
  "differentiates_aux bias_gradient
     (\<lambda>ps. losses 3 bias_only ps [0, 0] ([[7]], [0], ())) (get_params bias_only [0, 0])
   \<and> train_step bias_gradient 3 bias_only [0, 0] ([[7]], [0], ()) = Inl TypeError"
proof -
  have params: "get_params bias_only [0, 0] = [0, 0]" by (simp add: bias_only_def)
  have here: "losses 3 bias_only [0, 0] [0, 0] ([[7]], [0], ()) = Inl TypeError"
    by (simp add: losses_eval)
  show ?thesis
    unfolding train_step_def Let_def differentiates_aux_def params bias_gradient_def here
    by simp
qed

end
